theory Spec2Isabelle
  imports Complex_Main "HOL-Library.Word" "HOL-Library.Sublist" "HOL-Library.Multiset"
begin

chapter \<open>Ultra Plan Mode: dashboard, configuration and session buffer\<close>

text \<open>
  A shallow embedding of the TypeScript sources of the repository: the dashboard
  component (\<^verbatim>\<open>App\<close>, with its helper \<^verbatim>\<open>rotateSpeakersLocal\<close>), the configuration
  module (\<^verbatim>\<open>validateConfig\<close>, \<^verbatim>\<open>saveConfig\<close>) and the terminal session
  (\<^verbatim>\<open>Session\<close>, its replay buffer). The continuation and gap analysers are
  described by the specification only; they are modelled from its words and marked as
  such.
\<close>

section \<open>JavaScript values\<close>

subsection \<open>Strings\<close>

text \<open>
  A JavaScript string is a sequence of UTF-16 code units and \<^verbatim>\<open>length\<close> counts code
  units. \<open>js\<close> embeds an ASCII literal.
\<close>

type_synonym code_unit = "16 word"
type_synonym js_string = "code_unit list"

definition js :: "string \<Rightarrow> js_string" where
  "js s = map of_char s"

text \<open>
  \<^verbatim>\<open>String.prototype.trim\<close> removes leading and trailing WhiteSpace and LineTerminator
  code points: TAB, LF, VT, FF, CR, SP, NBSP, U+1680, U+2000 to U+200A, U+2028, U+2029,
  U+202F, U+205F, U+3000 and U+FEFF.
\<close>

definition isWhiteSpace :: "code_unit \<Rightarrow> bool" where
  "isWhiteSpace c \<longleftrightarrow>
     c \<in> {0x09, 0x0A, 0x0B, 0x0C, 0x0D, 0x20, 0xA0, 0x1680, 0x2028, 0x2029, 0x202F,
          0x205F, 0x3000, 0xFEFF} \<or> (0x2000 \<le> c \<and> c \<le> 0x200A)"

definition trim :: "js_string \<Rightarrow> js_string" where
  "trim s = rev (dropWhile isWhiteSpace (rev (dropWhile isWhiteSpace s)))"

subsection \<open>Numbers\<close>

text \<open>
  A JavaScript number is a double: a finite value, NaN or an infinity. Every finite
  double is a rational, so \<open>Finite q\<close> ranges over (more than) the finite doubles; the
  functions below only compare numbers with integer constants and test integrality.
  A comparison with NaN is false.
\<close>

datatype js_number = Finite rat | NaN | PosInfinity | NegInfinity

fun js_less :: "js_number \<Rightarrow> js_number \<Rightarrow> bool" where
  "js_less NaN _ = False"
| "js_less _ NaN = False"
| "js_less (Finite a) (Finite b) = (a < b)"
| "js_less (Finite _) PosInfinity = True"
| "js_less (Finite _) NegInfinity = False"
| "js_less PosInfinity _ = False"
| "js_less NegInfinity NegInfinity = False"
| "js_less NegInfinity _ = True"

definition js_greater :: "js_number \<Rightarrow> js_number \<Rightarrow> bool" where
  "js_greater a b = js_less b a"

text \<open>\<^verbatim>\<open>Number.isInteger\<close>: false for NaN and the infinities.\<close>

fun isInteger :: "js_number \<Rightarrow> bool" where
  "isInteger (Finite q) = (of_int \<lfloor>q\<rfloor> = q)"
| "isInteger _ = False"

subsection \<open>Integer remainder and array slices\<close>

text \<open>
  \<^verbatim>\<open>a % b\<close> on integers truncates towards zero and takes the sign of the dividend;
  \<^verbatim>\<open>a % 0\<close> is NaN, here \<open>None\<close>.
\<close>

definition js_rem :: "int \<Rightarrow> int \<Rightarrow> int option" where
  "js_rem a b = (if b = 0 then None else Some (sgn a * (\<bar>a\<bar> mod \<bar>b\<bar>)))"

text \<open>
  \<^verbatim>\<open>Array.prototype.slice(start, end)\<close>: an argument is first made an integer (NaN
  becomes 0); a negative index counts from the end; both are clamped to the array.
\<close>

definition toIntegerOrZero :: "int option \<Rightarrow> int" where
  "toIntegerOrZero v = (case v of None \<Rightarrow> 0 | Some k \<Rightarrow> k)"

definition relativeIndex :: "nat \<Rightarrow> int \<Rightarrow> nat" where
  "relativeIndex len k = (if k < 0 then nat (max (int len + k) 0) else min (nat k) len)"

definition js_slice :: "'a list \<Rightarrow> int option \<Rightarrow> int option \<Rightarrow> 'a list" where
  "js_slice xs start end =
     (let from = relativeIndex (length xs) (toIntegerOrZero start);
          to = relativeIndex (length xs) (toIntegerOrZero end)
      in take (to - from) (drop from xs))"

text \<open>\<^verbatim>\<open>slice(start)\<close> with the end omitted runs to the end of the array.\<close>

definition js_slice_from :: "'a list \<Rightarrow> int option \<Rightarrow> 'a list" where
  "js_slice_from xs start = drop (relativeIndex (length xs) (toIntegerOrZero start)) xs"

section \<open>The dashboard: speaker rotation\<close>

datatype cliName = Claude | Codex | Gemini

text \<open>
  A round is a JavaScript number, a double. The rotation is about whole rounds, so
  \<open>roundNum\<close> is an integer, standing for the double of that value; but the arithmetic on
  it is that of doubles: a result is rounded to the nearest double, a tie to the one
  with an even significand. Integers below \<open>2 ^ 53\<close> in absolute value are doubles;
  from there on the doubles are \<open>ulp\<close> apart, and \<open>ulp\<close> doubles with each binade.
\<close>

function ulp :: "nat \<Rightarrow> nat" where
  "ulp n = (if n < 2 ^ 53 then 1 else 2 * ulp (n div 2))"
  by pat_completeness auto
termination
  by (relation "measure (\<lambda>n. n)") auto

declare ulp.simps [simp del]

definition toDouble :: "int \<Rightarrow> int" where
  "toDouble x =
     (let a = nat \<bar>x\<bar>; q = ulp a; m = a div q; rest = a mod q
      in sgn x * int ((if 2 * rest > q \<or> (2 * rest = q \<and> odd m) then m + 1 else m) * q))"

text \<open>
  \<^verbatim>\<open>
  function rotateSpeakersLocal(participants: CliName[], round: number): CliName[] {
    const offset = (round - 1) % participants.length;
    return [...participants.slice(offset), ...participants.slice(0, offset)];
  }
  \<close>
  The function does not look at the elements, so it is embedded for any element type; the
  dashboard calls it with \<open>roundNum = 1, 2, \<dots>, maxRounds\<close>. The difference
  \<^verbatim>\<open>round - 1\<close> is rounded to a double; the remainder of two doubles is exact.
\<close>

definition rotateSpeakersLocal :: "'a list \<Rightarrow> int \<Rightarrow> 'a list" where
  "rotateSpeakersLocal participants roundNum =
     (let offset = js_rem (toDouble (roundNum - 1)) (int (length participants))
      in js_slice_from participants offset @ js_slice participants (Some 0) offset)"

section \<open>The terminal session and its replay buffer\<close>

text \<open>
  \<^verbatim>\<open>
  const normalizeOutput = (data: string) => {
    if (!IS_WINDOWS) { return data; }
    return data.replace(/\r\r\n/g, "\r\n");
  };
  \<close>
  The global replace scans from the left and continues after each match.
  \<open>IS_WINDOWS\<close> is the platform test, a parameter of the model.
\<close>

fun replaceCrCrLf :: "js_string \<Rightarrow> js_string" where
  "replaceCrCrLf (a # b # c # rest) =
     (if a = 0x0D \<and> b = 0x0D \<and> c = 0x0A then 0x0D # 0x0A # replaceCrCrLf rest
      else a # replaceCrCrLf (b # c # rest))"
| "replaceCrCrLf s = s"

definition normalizeOutput :: "bool \<Rightarrow> js_string \<Rightarrow> js_string" where
  "normalizeOutput IS_WINDOWS data = (if \<not> IS_WINDOWS then data else replaceCrCrLf data)"

text \<open>\<^verbatim>\<open>const REPLAY_BUFFER_MAX = 256 * 1024; // 256 KB\<close>\<close>

definition REPLAY_BUFFER_MAX :: int where
  "REPLAY_BUFFER_MAX = 256 * 1024"

datatype sessionStatus = Running | Exited | Error

text \<open>
  The mutable fields of a \<^verbatim>\<open>Session\<close>: \<^verbatim>\<open>status\<close>, and the private
  \<^verbatim>\<open>_replayChunks\<close> and \<^verbatim>\<open>_replaySize\<close>, which only the data handler writes.
\<close>

record session =
  status :: sessionStatus
  replayChunks :: "js_string list"
  replaySize :: int

text \<open>Field initialisers of the class: running, no chunks, size 0.\<close>

definition newSession :: session where
  "newSession = \<lparr> status = Running, replayChunks = [], replaySize = 0 \<rparr>"

text \<open>
  \<^verbatim>\<open>
  while (this._replaySize > REPLAY_BUFFER_MAX && this._replayChunks.length > 1) {
    const removed = this._replayChunks.shift()!;
    this._replaySize -= removed.length;
  }
  \<close>
\<close>

function trimReplay :: "js_string list \<Rightarrow> int \<Rightarrow> js_string list \<times> int" where
  "trimReplay chunks sz =
     (if sz > REPLAY_BUFFER_MAX \<and> length chunks > 1
      then trimReplay (tl chunks) (sz - int (length (hd chunks)))
      else (chunks, sz))"
  by pat_completeness auto
termination
  by (relation "measure (\<lambda>(chunks, sz). length chunks)") auto

declare trimReplay.simps [simp del]

text \<open>
  The handler registered with \<^verbatim>\<open>ptyProcess.onData\<close>: normalise, push, add the length,
  trim. It then emits the normalised data to the listeners.
\<close>

definition onData :: "bool \<Rightarrow> js_string \<Rightarrow> session \<Rightarrow> session" where
  "onData IS_WINDOWS data s =
     (let normalized = normalizeOutput IS_WINDOWS data;
          chunks = replayChunks s @ [normalized];
          sz = replaySize s + int (length normalized);
          (chunks', sz') = trimReplay chunks sz
      in s\<lparr> replayChunks := chunks', replaySize := sz' \<rparr>)"

text \<open>The handler registered with \<^verbatim>\<open>ptyProcess.onExit\<close> sets the status.\<close>

definition onExit :: "session \<Rightarrow> session" where
  "onExit s = s\<lparr> status := Exited \<rparr>"

text \<open>\<^verbatim>\<open>getReplayBuffer(): string { return this._replayChunks.join(""); }\<close>\<close>

definition getReplayBuffer :: "session \<Rightarrow> js_string" where
  "getReplayBuffer s = concat (replayChunks s)"

text \<open>The events a pseudo-terminal delivers to a session, and a session's history.\<close>

datatype pty_event = PtyData js_string | PtyExit

fun handleEvent :: "bool \<Rightarrow> session \<Rightarrow> pty_event \<Rightarrow> session" where
  "handleEvent IS_WINDOWS s (PtyData d) = onData IS_WINDOWS d s"
| "handleEvent IS_WINDOWS s PtyExit = onExit s"

definition runSession :: "bool \<Rightarrow> pty_event list \<Rightarrow> session" where
  "runSession IS_WINDOWS evs = foldl (handleEvent IS_WINDOWS) newSession evs"

text \<open>The data the session emits to its listeners: every chunk, normalised, in order.\<close>

fun emittedData :: "bool \<Rightarrow> pty_event list \<Rightarrow> js_string list" where
  "emittedData IS_WINDOWS [] = []"
| "emittedData IS_WINDOWS (PtyData d # evs) = normalizeOutput IS_WINDOWS d # emittedData IS_WINDOWS evs"
| "emittedData IS_WINDOWS (PtyExit # evs) = emittedData IS_WINDOWS evs"

text \<open>A data chunk one code unit longer than the cap, for the examples.\<close>

definition bigChunk :: js_string where
  "bigChunk = replicate 262145 0x41"

section \<open>The configuration module\<close>

text \<open>The interface \<^verbatim>\<open>UltraPlanConfig\<close>, field by field.\<close>

record ultraPlanConfig =
  readyKeyword :: js_string
  readyProbePrompt :: js_string
  readyTimeoutMs :: js_number
  systemPrompt :: js_string
  discussionTemplate :: js_string
  idleCompleteMs :: js_number
  questionTimeoutMs :: js_number
  discussionRounds :: js_number
  discussionTurnTimeoutMs :: js_number
  enableConsensusSummary :: bool
  enablePlanGeneration :: bool
  discussionLanguage :: js_string

text \<open>\<^verbatim>\<open>export type ValidationError = { field: string; message: string };\<close>\<close>

record validationError =
  field :: js_string
  message :: js_string

subsection \<open>The messages\<close>

text \<open>
  The messages are Chinese text, given here by their UTF-16 code units. In order:
  "must not be empty"; "only letters, digits and underscore are allowed";
  "at most \<open>n\<close> characters"; "must be an integer in \<open>range\<close>", with an optional
  remark in parentheses; "must be a boolean"; "writing failed: ", followed by the
  exception's text.
\<close>

definition msgNotEmpty :: js_string where
  "msgNotEmpty = [0x4E0D, 0x80FD, 0x4E3A, 0x7A7A]"

definition msgAlnumOnly :: js_string where
  "msgAlnumOnly = [0x4EC5, 0x5141, 0x8BB8, 0x5B57, 0x6BCD, 0x3001, 0x6570, 0x5B57, 0x3001,
                   0x4E0B, 0x5212, 0x7EBF]"

definition msgMaxChars :: "string \<Rightarrow> js_string" where
  "msgMaxChars n = [0x6700, 0x957F] @ js '' '' @ js n @ js '' '' @ [0x5B57, 0x7B26]"

definition msgIntegerIn :: "string \<Rightarrow> string \<Rightarrow> js_string" where
  "msgIntegerIn bounds remark =
     [0x5FC5, 0x987B, 0x4E3A] @ js '' '' @ js bounds @ js '' '' @ [0x7684, 0x6574, 0x6570] @ js remark"

definition msgBoolean :: js_string where
  "msgBoolean = [0x5FC5, 0x987B, 0x4E3A, 0x5E03, 0x5C14, 0x503C]"

definition msgWriteFailed :: "js_string \<Rightarrow> js_string" where
  "msgWriteFailed e = [0x5199, 0x5165, 0x5931, 0x8D25] @ js '': '' @ e"

subsection \<open>Validation\<close>

text \<open>\<^verbatim>\<open>/^[A-Za-z0-9_]+$/.test(s)\<close>: one or more code units, each a letter, a digit or \<open>_\<close>.\<close>

definition isWordChar :: "code_unit \<Rightarrow> bool" where
  "isWordChar c \<longleftrightarrow>
     (0x41 \<le> c \<and> c \<le> 0x5A) \<or> (0x61 \<le> c \<and> c \<le> 0x7A) \<or> (0x30 \<le> c \<and> c \<le> 0x39) \<or> c = 0x5F"

definition matchesWord :: "js_string \<Rightarrow> bool" where
  "matchesWord s \<longleftrightarrow> s \<noteq> [] \<and> list_all isWordChar s"

text \<open>
  \<^verbatim>\<open>!s || s.trim().length === 0\<close>: a string is falsy exactly when it is empty.
\<close>

definition isBlank :: "js_string \<Rightarrow> bool" where
  "isBlank s \<longleftrightarrow> s = [] \<or> length (trim s) = 0"

text \<open>\<^verbatim>\<open>typeof b\<close> for a value of the declared type \<^verbatim>\<open>boolean\<close>.\<close>

definition typeofBoolean :: "bool \<Rightarrow> js_string" where
  "typeofBoolean b = js ''boolean''"

text \<open>
  \<^verbatim>\<open>validateConfig\<close> pushes onto \<^verbatim>\<open>errors\<close> in twelve consecutive blocks, one for
  each field. Each block is a definition here, in the order and with the conditions of
  the source; \<open>validateConfig\<close> appends them.
  \<^verbatim>\<open>
  if (!config.readyKeyword || config.readyKeyword.trim().length === 0) {
    errors.push({ field: "readyKeyword", message: ... });
  } else if (!/^[A-Za-z0-9_]+$/.test(config.readyKeyword)) {
    errors.push({ field: "readyKeyword", message: ... });
  } else if (config.readyKeyword.length > 50) {
    errors.push({ field: "readyKeyword", message: ... });
  }
  \<close>
\<close>

definition check_readyKeyword :: "ultraPlanConfig \<Rightarrow> validationError list" where
  "check_readyKeyword config =
     (if isBlank (readyKeyword config)
      then [\<lparr> field = js ''readyKeyword'', message = msgNotEmpty \<rparr>]
      else if \<not> matchesWord (readyKeyword config)
      then [\<lparr> field = js ''readyKeyword'', message = msgAlnumOnly \<rparr>]
      else if length (readyKeyword config) > 50
      then [\<lparr> field = js ''readyKeyword'', message = msgMaxChars ''50'' \<rparr>]
      else [])"

definition check_readyProbePrompt :: "ultraPlanConfig \<Rightarrow> validationError list" where
  "check_readyProbePrompt config =
     (if isBlank (readyProbePrompt config)
      then [\<lparr> field = js ''readyProbePrompt'', message = msgNotEmpty \<rparr>]
      else if length (readyProbePrompt config) > 500
      then [\<lparr> field = js ''readyProbePrompt'', message = msgMaxChars ''500'' \<rparr>]
      else [])"

definition check_systemPrompt :: "ultraPlanConfig \<Rightarrow> validationError list" where
  "check_systemPrompt config =
     (if length (systemPrompt config) > 10000
      then [\<lparr> field = js ''systemPrompt'', message = msgMaxChars ''10000'' \<rparr>]
      else [])"

definition check_discussionTemplate :: "ultraPlanConfig \<Rightarrow> validationError list" where
  "check_discussionTemplate config =
     (if isBlank (discussionTemplate config)
      then [\<lparr> field = js ''discussionTemplate'', message = msgNotEmpty \<rparr>]
      else if length (discussionTemplate config) > 100000
      then [\<lparr> field = js ''discussionTemplate'', message = msgMaxChars ''100000'' \<rparr>]
      else [])"

text \<open>
  \<^verbatim>\<open>
  if (!Number.isInteger(config.readyTimeoutMs) || config.readyTimeoutMs < 5000
      || config.readyTimeoutMs > 300_000) { errors.push(...) }
  \<close>
  and the same shape for the other numeric fields.
\<close>

definition check_readyTimeoutMs :: "ultraPlanConfig \<Rightarrow> validationError list" where
  "check_readyTimeoutMs config =
     (if \<not> isInteger (readyTimeoutMs config) \<or> js_less (readyTimeoutMs config) (Finite 5000)
         \<or> js_greater (readyTimeoutMs config) (Finite 300000)
      then [\<lparr> field = js ''readyTimeoutMs'',
              message = msgIntegerIn ''5000-300000'' '' (5s-300s)'' \<rparr>]
      else [])"

definition check_idleCompleteMs :: "ultraPlanConfig \<Rightarrow> validationError list" where
  "check_idleCompleteMs config =
     (if \<not> isInteger (idleCompleteMs config) \<or> js_less (idleCompleteMs config) (Finite 5000)
         \<or> js_greater (idleCompleteMs config) (Finite 120000)
      then [\<lparr> field = js ''idleCompleteMs'',
              message = msgIntegerIn ''5000-120000'' '' (5s-120s)'' \<rparr>]
      else [])"

definition check_questionTimeoutMs :: "ultraPlanConfig \<Rightarrow> validationError list" where
  "check_questionTimeoutMs config =
     (if \<not> isInteger (questionTimeoutMs config) \<or> js_less (questionTimeoutMs config) (Finite 30000)
         \<or> js_greater (questionTimeoutMs config) (Finite 600000)
      then [\<lparr> field = js ''questionTimeoutMs'',
              message = msgIntegerIn ''30000-600000'' '' (30s-600s)'' \<rparr>]
      else [])"

text \<open>
  \<^verbatim>\<open>
  // discussionRounds: integer 1-10
  if (!Number.isInteger(config.discussionRounds) || config.discussionRounds < 1
      || config.discussionRounds > 10) {
    errors.push({ field: "discussionRounds", message: ... });
  }
  \<close>
\<close>

definition check_discussionRounds :: "ultraPlanConfig \<Rightarrow> validationError list" where
  "check_discussionRounds config =
     (if \<not> isInteger (discussionRounds config) \<or> js_less (discussionRounds config) (Finite 1)
         \<or> js_greater (discussionRounds config) (Finite 10)
      then [\<lparr> field = js ''discussionRounds'', message = msgIntegerIn ''1-10'' [] \<rparr>]
      else [])"

definition check_discussionTurnTimeoutMs :: "ultraPlanConfig \<Rightarrow> validationError list" where
  "check_discussionTurnTimeoutMs config =
     (if \<not> isInteger (discussionTurnTimeoutMs config)
         \<or> js_less (discussionTurnTimeoutMs config) (Finite 30000)
         \<or> js_greater (discussionTurnTimeoutMs config) (Finite 600000)
      then [\<lparr> field = js ''discussionTurnTimeoutMs'',
              message = msgIntegerIn ''30000-600000'' '' (30s-600s)'' \<rparr>]
      else [])"

text \<open>
  \<^verbatim>\<open>if (typeof config.enableConsensusSummary !== "boolean") { errors.push(...) }\<close>:
  a guard against a value that is not of the declared type.
\<close>

definition check_enableConsensusSummary :: "ultraPlanConfig \<Rightarrow> validationError list" where
  "check_enableConsensusSummary config =
     (if typeofBoolean (enableConsensusSummary config) \<noteq> js ''boolean''
      then [\<lparr> field = js ''enableConsensusSummary'', message = msgBoolean \<rparr>]
      else [])"

definition check_enablePlanGeneration :: "ultraPlanConfig \<Rightarrow> validationError list" where
  "check_enablePlanGeneration config =
     (if typeofBoolean (enablePlanGeneration config) \<noteq> js ''boolean''
      then [\<lparr> field = js ''enablePlanGeneration'', message = msgBoolean \<rparr>]
      else [])"

definition check_discussionLanguage :: "ultraPlanConfig \<Rightarrow> validationError list" where
  "check_discussionLanguage config =
     (if isBlank (discussionLanguage config)
      then [\<lparr> field = js ''discussionLanguage'', message = msgNotEmpty \<rparr>]
      else if length (discussionLanguage config) > 20
      then [\<lparr> field = js ''discussionLanguage'', message = msgMaxChars ''20'' \<rparr>]
      else [])"

definition validateConfig :: "ultraPlanConfig \<Rightarrow> validationError list" where
  "validateConfig config =
     check_readyKeyword config @ check_readyProbePrompt config @ check_systemPrompt config
     @ check_discussionTemplate config @ check_readyTimeoutMs config
     @ check_idleCompleteMs config @ check_questionTimeoutMs config
     @ check_discussionRounds config @ check_discussionTurnTimeoutMs config
     @ check_enableConsensusSummary config @ check_enablePlanGeneration config
     @ check_discussionLanguage config"

subsection \<open>Saving\<close>

text \<open>
  \<^verbatim>\<open>saveConfig\<close> reaches the file system through two calls of the Node library,
  \<^verbatim>\<open>fs.mkdirSync(DATA_DIR, { recursive: true })\<close> and
  \<^verbatim>\<open>fs.writeFileSync(CONFIG_FILE, text, "utf8")\<close>. The part of the file system they
  touch is whether the data directory exists and the content of the configuration file;
  \<open>calls\<close> records the calls issued, in order.
\<close>

datatype fs_call = MkdirSync | WriteFileSync js_string

record fs =
  dataDirExists :: bool
  configFile :: "js_string option"
  calls :: "fs_call list"

text \<open>
  Either call may throw. What the environment does is a parameter: no fault, a throwing
  \<^verbatim>\<open>mkdirSync\<close>, or a throwing \<^verbatim>\<open>writeFileSync\<close>, which may leave any content
  behind. A fault carries the text the exception is rendered to.
\<close>

datatype fs_fault = NoFault | MkdirThrows js_string | WriteThrows js_string "js_string option"

text \<open>The result \<^verbatim>\<open>{ ok: boolean; errors?: ValidationError[] }\<close>.\<close>

record saveResult =
  ok :: bool
  errors :: "validationError list option"

text \<open>
  \<^verbatim>\<open>
  export function saveConfig(config) {
    const errors = validateConfig(config);
    if (errors.length > 0) { return { ok: false, errors }; }
    try {
      fs.mkdirSync(DATA_DIR, { recursive: true });
      fs.writeFileSync(CONFIG_FILE, JSON.stringify(config, null, 2), "utf8");
      return { ok: true };
    } catch (e) {
      return { ok: false, errors: [{ field: "_", message: `... ${e}` }] };
    }
  }
  \<close>
  \<^verbatim>\<open>JSON.stringify\<close> is the parameter \<open>stringify\<close>.
\<close>

definition saveConfig ::
  "(ultraPlanConfig \<Rightarrow> js_string) \<Rightarrow> fs_fault \<Rightarrow> ultraPlanConfig \<Rightarrow> fs \<Rightarrow> saveResult \<times> fs" where
  "saveConfig stringify fault config disk =
     (let errs = validateConfig config in
      if length errs > 0 then (\<lparr> ok = False, errors = Some errs \<rparr>, disk)
      else
        (case fault of
           MkdirThrows e \<Rightarrow>
             (\<lparr> ok = False, errors = Some [\<lparr> field = js ''_'', message = msgWriteFailed e \<rparr>] \<rparr>,
              disk\<lparr> calls := calls disk @ [MkdirSync] \<rparr>)
         | WriteThrows e left \<Rightarrow>
             (\<lparr> ok = False, errors = Some [\<lparr> field = js ''_'', message = msgWriteFailed e \<rparr>] \<rparr>,
              disk\<lparr> dataDirExists := True, configFile := left,
                    calls := calls disk @ [MkdirSync, WriteFileSync (stringify config)] \<rparr>)
         | NoFault \<Rightarrow>
             (\<lparr> ok = True, errors = None \<rparr>,
              disk\<lparr> dataDirExists := True, configFile := Some (stringify config),
                    calls := calls disk @ [MkdirSync, WriteFileSync (stringify config)] \<rparr>)))"

text \<open>
  Whether an invocation rewrote the configuration file with the given configuration:
  \<^verbatim>\<open>writeFileSync\<close> was called and returned.
\<close>

definition wroteConfigFile ::
  "(ultraPlanConfig \<Rightarrow> js_string) \<Rightarrow> fs_fault \<Rightarrow> ultraPlanConfig \<Rightarrow> fs \<Rightarrow> bool" where
  "wroteConfigFile stringify fault config disk \<longleftrightarrow>
     ok (fst (saveConfig stringify fault config disk))
     \<and> configFile (snd (saveConfig stringify fault config disk)) = Some (stringify config)
     \<and> calls (snd (saveConfig stringify fault config disk))
         = calls disk @ [MkdirSync, WriteFileSync (stringify config)]"

text \<open>Examples: the fallback defaults with a short template, and a disk with an older file.\<close>

definition exampleConfig :: ultraPlanConfig where
  "exampleConfig =
     \<lparr> readyKeyword = js ''ULTRAPLAN_READY'',
       readyProbePrompt = js ''Reply with exactly the word ULTRAPLAN_READY'',
       readyTimeoutMs = Finite 60000,
       systemPrompt = js '''',
       discussionTemplate = js ''# Discussion Template'',
       idleCompleteMs = Finite 20000,
       questionTimeoutMs = Finite 300000,
       discussionRounds = Finite 5,
       discussionTurnTimeoutMs = Finite 300000,
       enableConsensusSummary = True,
       enablePlanGeneration = True,
       discussionLanguage = js ''zh-CN'' \<rparr>"

definition exampleDisk :: fs where
  "exampleDisk = \<lparr> dataDirExists = True, configFile = Some (js ''{}''), calls = [] \<rparr>"

definition exampleStringify :: "ultraPlanConfig \<Rightarrow> js_string" where
  "exampleStringify config = js ''{\"readyKeyword\": \"'' @ readyKeyword config @ js ''\"}''"

section \<open>The dashboard: state and WebSocket messages\<close>

text \<open>
  \<^verbatim>\<open>
  type WorkflowStage = "readiness" | "workspace" | "questioning" | "discussion-init"
    | "initial-views" | "discussion" | "consensus" | "plan-generation" | "complete";
  \<close>
\<close>

datatype workflowStage =
  Readiness | Workspace | Questioning | DiscussionInit | InitialViews | Discussion
  | Consensus | PlanGeneration | Complete

text \<open>\<^verbatim>\<open>"pending" | "generating" | "completed" | "failed"\<close>, of the consensus and the plan.\<close>

datatype generationStatus = GenPending | Generating | GenCompleted | GenFailed

text \<open>
  The component's state, as far as the workflow and the user-input panel go:
  \<^verbatim>\<open>wsRef.current\<close> (a socket is identified by a number) and whether that socket's
  \<^verbatim>\<open>readyState\<close> is \<^verbatim>\<open>OPEN\<close>, and the \<^verbatim>\<open>useState\<close> cells
  \<^verbatim>\<open>workflowStage\<close>, \<^verbatim>\<open>consensusStatus\<close>, \<^verbatim>\<open>planGenerationStatus\<close>,
  \<^verbatim>\<open>continuationAnalyzing\<close>, \<^verbatim>\<open>userInputPending\<close>, \<^verbatim>\<open>userInputRound\<close>,
  \<^verbatim>\<open>userInputQuestions\<close> and \<^verbatim>\<open>userInputAnswers\<close> (a
  \<^verbatim>\<open>Record<number, string>\<close>). The cells for readiness, questions, paths, document
  contents and discussion rounds are left out: the cases of the message handler that
  write only those are listed below and leave this state as it is.
\<close>

record app =
  wsRef :: "nat option"
  socketOpen :: bool
  workflowStage :: workflowStage
  consensusStatus :: generationStatus
  planGenerationStatus :: generationStatus
  continuationAnalyzing :: bool
  userInputPending :: bool
  userInputRound :: js_number
  userInputQuestions :: "js_string list"
  userInputAnswers :: "nat \<rightharpoonup> js_string"

text \<open>The initial values of the \<^verbatim>\<open>useState\<close> cells; no socket yet.\<close>

definition initialApp :: app where
  "initialApp =
     \<lparr> wsRef = None, socketOpen = False, workflowStage = Readiness,
       consensusStatus = GenPending, planGenerationStatus = GenPending,
       continuationAnalyzing = False, userInputPending = False, userInputRound = Finite 0,
       userInputQuestions = [], userInputAnswers = Map.empty \<rparr>"

text \<open>
  A message \<^verbatim>\<open>{ type?: string; payload?: Record<string, any> }\<close>. Of the payload, the
  keys the modelled cases read, each with the type the handler casts it to; \<open>None\<close> is
  an absent key.
\<close>

record payload =
  p_status :: "js_string option"
  p_questions :: "js_string list option"
  p_round :: "js_number option"

record wsMessage =
  msgType :: "js_string option"
  msgPayload :: "payload option"

text \<open>\<^verbatim>\<open>const payload = message.payload ?? {};\<close>\<close>

definition emptyPayload :: payload where
  "emptyPayload = \<lparr> p_status = None, p_questions = None, p_round = None \<rparr>"

definition payloadOf :: "wsMessage \<Rightarrow> payload" where
  "payloadOf m = (case msgPayload m of None \<Rightarrow> emptyPayload | Some p \<Rightarrow> p)"

text \<open>
  The \<^verbatim>\<open>switch (type)\<close> of the handler, case by case in the order of the source. For
  instance
  \<^verbatim>\<open>
  case "ultraplan.discussionFileInit": {
    const status = payload?.status as string | undefined;
    if (status === "skipped") { setWorkflowStage("complete"); }
    else { setWorkflowStage("discussion-init"); }
    break;
  }
  case "ultraplan.discussionComplete": {
    const status = payload?.status as string | undefined;
    if (status === "completed") { setWorkflowStage("consensus"); }
    else if (status === "failed") { setWorkflowStage("complete"); }
    break;
  }
  \<close>
\<close>

definition handleMessage :: "wsMessage \<Rightarrow> app \<Rightarrow> app" where
  "handleMessage m st =
     (let type = msgType m; p = payloadOf m in
      if type = Some (js ''cli.ready'') then st
      else if type = Some (js ''cli.allReady'') then st
      else if type = Some (js ''cli.status'') then st
      else if type = Some (js ''cli.testComplete'') then st
      else if type = Some (js ''ultraplan.workspaceCreated'') then st\<lparr> workflowStage := Workspace \<rparr>
      else if type = Some (js ''ultraplan.initialQuestion'') then st\<lparr> workflowStage := Questioning \<rparr>
      else if type = Some (js ''ultraplan.questionComplete'') then st
      else if type = Some (js ''ultraplan.allQuestionsComplete'')
        then st\<lparr> workflowStage := DiscussionInit \<rparr>
      else if type = Some (js ''ultraplan.discussionFileInit'')
        then (if p_status p = Some (js ''skipped'') then st\<lparr> workflowStage := Complete \<rparr>
              else st\<lparr> workflowStage := DiscussionInit \<rparr>)
      else if type = Some (js ''ultraplan.discussionFileCreated'')
        then st\<lparr> workflowStage := InitialViews \<rparr>
      else if type = Some (js ''ultraplan.initialViewStart'')
        then st\<lparr> workflowStage := InitialViews, consensusStatus := GenPending \<rparr>
      else if type = Some (js ''ultraplan.initialViewUpdate'') then st
      else if type = Some (js ''ultraplan.initialViewComplete'') then st\<lparr> workflowStage := Discussion \<rparr>
      else if type = Some (js ''ultraplan.discussionStart'') then st\<lparr> workflowStage := Discussion \<rparr>
      else if type = Some (js ''ultraplan.discussionRoundStart'') then st
      else if type = Some (js ''ultraplan.discussionEntryUpdate'') then st
      else if type = Some (js ''ultraplan.discussionRoundComplete'') then st
      else if type = Some (js ''ultraplan.discussionComplete'')
        then (if p_status p = Some (js ''completed'') then st\<lparr> workflowStage := Consensus \<rparr>
              else if p_status p = Some (js ''failed'') then st\<lparr> workflowStage := Complete \<rparr>
              else st)
      else if type = Some (js ''ultraplan.consensusStart'')
        then st\<lparr> workflowStage := Consensus, consensusStatus := Generating \<rparr>
      else if type = Some (js ''ultraplan.continuationAnalyzing'')
        then st\<lparr> continuationAnalyzing := True \<rparr>
      else if type = Some (js ''ultraplan.continuationDecision'')
        then st\<lparr> continuationAnalyzing := False \<rparr>
      else if type = Some (js ''ultraplan.userInputAnalyzing'') then st
      else if type = Some (js ''ultraplan.userInputNeeded'')
        then st\<lparr> userInputQuestions := (case p_questions p of None \<Rightarrow> [] | Some qs \<Rightarrow> qs),
                 userInputRound := (case p_round p of None \<Rightarrow> Finite 0 | Some r \<Rightarrow> r),
                 userInputAnswers := Map.empty,
                 userInputPending := True \<rparr>
      else if type = Some (js ''ultraplan.userInputReceived'')
        then st\<lparr> userInputPending := False, userInputQuestions := [] \<rparr>
      else if type = Some (js ''ultraplan.consensusComplete'')
        then st\<lparr> consensusStatus :=
                   (if p_status p = Some (js ''completed'') then GenCompleted else GenFailed) \<rparr>
      else if type = Some (js ''ultraplan.planGenerationStart'')
        then st\<lparr> workflowStage := PlanGeneration, planGenerationStatus := Generating \<rparr>
      else if type = Some (js ''ultraplan.planGenerationComplete'')
        then st\<lparr> planGenerationStatus :=
                   (if p_status p = Some (js ''completed'') then GenCompleted else GenFailed) \<rparr>
      else if type = Some (js ''ultraplan.workflowComplete'') then st\<lparr> workflowStage := Complete \<rparr>
      else if type = Some (js ''ultraplan.discussionContent'') then st
      else if type = Some (js ''ultraplan.planContent'') then st
      else st)"

text \<open>
  \<^verbatim>\<open>
  const handleIfCurrent = (action) => { if (wsRef.current !== socket) return; action(); };
  socket.onmessage = (event) => handleIfCurrent(() => {
    let message; try { message = JSON.parse(event.data); } catch { return; }
    ... switch ...
  });
  \<close>
  The handler of a socket acts only while that socket is the current one. The event
  carries the result of \<^verbatim>\<open>JSON.parse\<close>: \<open>None\<close> when it throws.
\<close>

definition onmessage :: "nat \<Rightarrow> wsMessage option \<Rightarrow> app \<Rightarrow> app" where
  "onmessage socket parsed st =
     (if wsRef st \<noteq> Some socket then st
      else case parsed of None \<Rightarrow> st | Some m \<Rightarrow> handleMessage m st)"

subsection \<open>The user-input panel\<close>

text \<open>
  The text area of question \<open>i\<close>:
  \<^verbatim>\<open>onChange={(e) => setUserInputAnswers(prev => ({ ...prev, [i]: e.target.value }))}\<close>
\<close>

definition onChange :: "nat \<Rightarrow> js_string \<Rightarrow> app \<Rightarrow> app" where
  "onChange i v st = st\<lparr> userInputAnswers := (userInputAnswers st)(i \<mapsto> v) \<rparr>"

text \<open>A sequence of edits, each the index of a text area and its new value.\<close>

definition typeAnswers :: "(nat \<times> js_string) list \<Rightarrow> app \<Rightarrow> app" where
  "typeAnswers edits st = foldl (\<lambda>s (i, v). onChange i v s) st edits"

text \<open>
  \<^verbatim>\<open>disabled={userInputQuestions.some((_, i) => !userInputAnswers[i]?.trim())}\<close>:
  an absent answer gives \<^verbatim>\<open>undefined\<close>, and an empty string is falsy.
\<close>

definition answerMissing :: "(nat \<rightharpoonup> js_string) \<Rightarrow> nat \<Rightarrow> bool" where
  "answerMissing answers i = (case answers i of None \<Rightarrow> True | Some a \<Rightarrow> trim a = [])"

definition submitDisabled :: "app \<Rightarrow> bool" where
  "submitDisabled st =
     list_ex (answerMissing (userInputAnswers st)) [0..<length (userInputQuestions st)]"

text \<open>
  The message the dashboard sends: its type and, for a submission, \<^verbatim>\<open>{ answers }\<close>.
  \<^verbatim>\<open>
  const send = (type, payload) => {
    const socket = wsRef.current;
    if (!socket || socket.readyState !== WebSocket.OPEN) { return; }
    socket.send(JSON.stringify({ type, payload }));
  };
  const submitUserInput = () => { send("ultraplan.userInputSubmit", { answers: userInputAnswers }); };
  \<close>
  \<open>None\<close>: nothing is sent.
\<close>

record submission =
  subType :: js_string
  answers :: "nat \<rightharpoonup> js_string"

definition send :: "js_string \<Rightarrow> (nat \<rightharpoonup> js_string) \<Rightarrow> app \<Rightarrow> submission option" where
  "send type ans st =
     (if wsRef st = None \<or> \<not> socketOpen st then None
      else Some \<lparr> subType = type, answers = ans \<rparr>)"

definition submitUserInput :: "app \<Rightarrow> submission option" where
  "submitUserInput st = send (js ''ultraplan.userInputSubmit'') (userInputAnswers st) st"

text \<open>
  A click on the submit button. The panel, and the button in it, is rendered only while
  \<^verbatim>\<open>userInputPending\<close> holds, and a disabled button does not call \<^verbatim>\<open>onClick\<close>.
\<close>

definition clickSubmit :: "app \<Rightarrow> submission option" where
  "clickSubmit st =
     (if userInputPending st \<and> \<not> submitDisabled st then submitUserInput st else None)"

text \<open>Examples: a dashboard on socket 1 waiting for two answers, and a message.\<close>

definition exampleApp :: app where
  "exampleApp =
     initialApp\<lparr> wsRef := Some 1, socketOpen := True, workflowStage := Discussion,
                 userInputPending := True,
                 userInputQuestions := [js ''Which database?'', js ''Which deadline?''] \<rparr>"

definition exampleMessage :: "string \<Rightarrow> string \<Rightarrow> wsMessage" where
  "exampleMessage name outcome =
     \<lparr> msgType = Some (js name), msgPayload = Some (emptyPayload\<lparr> p_status := Some (js outcome) \<rparr>) \<rparr>"

definition exampleNeeded :: wsMessage where
  "exampleNeeded =
     \<lparr> msgType = Some (js ''ultraplan.userInputNeeded''),
       msgPayload = Some (emptyPayload\<lparr> p_questions := Some [js ''Which database?'', js ''Which deadline?''],
                                        p_round := Some (Finite 2) \<rparr>) \<rparr>"

definition exampleEdits :: "(nat \<times> js_string) list" where
  "exampleEdits = [(0, js ''Postgres''), (1, js '' ''), (1, js ''May'')]"

section \<open>The continuation and gap analysers\<close>

text \<open>
  The analysers (\<^verbatim>\<open>analyzeForContinuation\<close> and \<^verbatim>\<open>analyzeForUserInput\<close> in the
  README) and the round loop that calls them are part of the server, which is not among
  the sources embedded above. The definitions of this section follow sections 4.5 and
  4.6 of the specification.
\<close>

text \<open>
  The result of the runner invocation behind an analysis: a failure with its reason, or
  the clean text of the answer.
\<close>

datatype analysisRun = RunFailed js_string | RunText js_string

record continuation =
  shouldContinue :: bool
  reason :: js_string

record gap =
  needsInput :: bool
  questions :: "js_string list"

text \<open>The reason of the conservative default, "analysis failed", a dash, "stopping".\<close>

definition analysisFailed :: js_string where
  "analysisFailed = js ''analysis failed '' @ [0x2014] @ js '' stopping''"

text \<open>
  Modelled from the spec: continuation analysis, which is missing from the sources. "Must
  parse the agent's response as a single JSON object; on any parse failure or runner
  failure, default conservatively to {shouldContinue: false, reason: analysis failed
  [...]}". The JSON parser is the parameter \<open>parse\<close>: \<open>None\<close> when the text is not a
  single JSON object of the expected shape.
\<close>

definition analyzeForContinuation ::
  "(js_string \<Rightarrow> continuation option) \<Rightarrow> analysisRun \<Rightarrow> continuation" where
  "analyzeForContinuation parse r =
     (case r of
        RunFailed _ \<Rightarrow> \<lparr> shouldContinue = False, reason = analysisFailed \<rparr>
      | RunText text \<Rightarrow>
          (case parse text of
             None \<Rightarrow> \<lparr> shouldContinue = False, reason = analysisFailed \<rparr>
           | Some c \<Rightarrow> c))"

text \<open>
  Modelled from the spec: user-input-gap analysis, which is missing from the sources.
  "returns {needsInput: bool, questions: up to 3 strings}. Same parse-or-default-false
  discipline; on failure, default to {needsInput: false}".
\<close>

definition analyzeForUserInput :: "(js_string \<Rightarrow> gap option) \<Rightarrow> analysisRun \<Rightarrow> gap" where
  "analyzeForUserInput parse r =
     (case r of
        RunFailed _ \<Rightarrow> \<lparr> needsInput = False, questions = [] \<rparr>
      | RunText text \<Rightarrow>
          (case parse text of
             None \<Rightarrow> \<lparr> needsInput = False, questions = [] \<rparr>
           | Some g \<Rightarrow> g\<lparr> questions := take 3 (questions g) \<rparr>))"

text \<open>What the round loop does once the speakers of a round are through.\<close>

datatype afterRound = AbortFailed | StopLoop | PauseForInput "js_string list" | NextRound

text \<open>
  Modelled from the spec: steps 4 to 7 of a discussion round, which are missing from the
  sources. "if every speaker failed this round, abort the entire workflow as failed";
  "if round == maxRounds, stop the loop"; "otherwise invoke Continuation analysis; if it
  returns shouldContinue=false, stop the loop"; "if continuing, invoke Gap analysis; if
  it reports needsInput with at least 1 question, the workflow pauses". The two runner
  results are those of the invocations the analyses make.
\<close>

definition afterSpeakers ::
  "(js_string \<Rightarrow> continuation option) \<Rightarrow> (js_string \<Rightarrow> gap option) \<Rightarrow>
   bool \<Rightarrow> nat \<Rightarrow> nat \<Rightarrow> analysisRun \<Rightarrow> analysisRun \<Rightarrow> afterRound" where
  "afterSpeakers parseC parseG allFailed roundNum maxRounds runC runG =
     (if allFailed then AbortFailed
      else if roundNum = maxRounds then StopLoop
      else if \<not> shouldContinue (analyzeForContinuation parseC runC) then StopLoop
      else (let g = analyzeForUserInput parseG runG
            in if needsInput g \<and> length (questions g) \<ge> 1 then PauseForInput (questions g)
               else NextRound))"

text \<open>
  Examples: parsers that accept exactly one text each, standing for a JSON parser on
  \<^verbatim>\<open>{"shouldContinue": true, "reason": "open points"}\<close> and on a gap report.
\<close>

definition exampleParseC :: "js_string \<Rightarrow> continuation option" where
  "exampleParseC text =
     (if text = js ''{\"shouldContinue\": true, \"reason\": \"open points\"}''
      then Some \<lparr> shouldContinue = True, reason = js ''open points'' \<rparr> else None)"

definition exampleParseG :: "js_string \<Rightarrow> gap option" where
  "exampleParseG text =
     (if text = js ''{\"needsInput\": true, \"questions\": [\"Which database?\"]}''
      then Some \<lparr> needsInput = True, questions = [js ''Which database?''] \<rparr> else None)"

text \<open>An analysis cannot use its runner result: the invocation failed, or the text does not parse.\<close>

definition runUnusable :: "(js_string \<Rightarrow> 'a option) \<Rightarrow> analysisRun \<Rightarrow> bool" where
  "runUnusable parse r = (case r of RunFailed _ \<Rightarrow> True | RunText text \<Rightarrow> parse text = None)"

definition exampleContinue :: analysisRun where
  "exampleContinue = RunText (js ''{\"shouldContinue\": true, \"reason\": \"open points\"}'')"

section \<open>Speaker rotation: properties\<close>

lemma js_rem_nonneg:
  "0 \<le> a \<Longrightarrow> 0 < b \<Longrightarrow> js_rem a b = Some (a mod b)"
  by (cases "a = 0") (simp_all add: js_rem_def)

lemma toDouble_exact: "\<bar>x\<bar> < 2 ^ 53 \<Longrightarrow> toDouble x = x"
proof -
  assume "\<bar>x\<bar> < 2 ^ 53"
  then have "nat \<bar>x\<bar> < 2 ^ 53"
    by (simp add: nat_less_iff)
  then have "ulp (nat \<bar>x\<bar>) = 1"
    by (subst ulp.simps) simp
  then have "toDouble x = sgn x * \<bar>x\<bar>"
    by (simp add: toDouble_def)
  then show ?thesis
    by (simp add: mult_sgn_abs)
qed

lemma toDouble_pred: "1 \<le> r \<Longrightarrow> r \<le> 2 ^ 53 \<Longrightarrow> toDouble (r - 1) = r - 1"
  by (rule toDouble_exact) simp

lemma ulp_above: "ulp 9007199254740993 = 2"
  by (simp add: ulp.simps)

lemma toDouble_above: "toDouble 9007199254740993 = 9007199254740992"
  by (simp add: toDouble_def ulp_above)

lemma rotate_beyond_safe:
  "rotateSpeakersLocal [Claude, Codex, Gemini] 9007199254740994 = [Gemini, Claude, Codex]"
  by (simp add: rotateSpeakersLocal_def toDouble_above js_rem_def js_slice_def js_slice_from_def
       relativeIndex_def toIntegerOrZero_def)

lemma rotate_last_safe:
  "rotateSpeakersLocal [Claude, Codex, Gemini] 9007199254740991 = [Claude, Codex, Gemini]"
  by (simp add: rotateSpeakersLocal_def toDouble_exact js_rem_def js_slice_def js_slice_from_def
       relativeIndex_def toIntegerOrZero_def)

lemma rotateSpeakersLocal_drop_take:
  assumes "ps \<noteq> []" and "1 \<le> r" and "r \<le> 2 ^ 53"
  shows "rotateSpeakersLocal ps r =
           drop (nat ((r - 1) mod int (length ps))) ps @ take (nat ((r - 1) mod int (length ps))) ps"
proof -
  let ?n = "int (length ps)"
  let ?k = "(r - 1) mod ?n"
  from assms have n: "0 < ?n" by simp
  from assms n have off: "js_rem (toDouble (r - 1)) ?n = Some ?k"
    by (simp add: js_rem_nonneg toDouble_pred)
  have k0: "0 \<le> ?k" using n by simp
  have kn: "?k < ?n" using n by simp
  then have kn': "nat ?k \<le> length ps" by linarith
  have idx: "relativeIndex (length ps) ?k = nat ?k"
    using k0 kn' by (simp add: relativeIndex_def)
  have "js_slice_from ps (Some ?k) = drop (nat ?k) ps"
    by (simp add: js_slice_from_def toIntegerOrZero_def idx)
  moreover have "js_slice ps (Some 0) (Some ?k) = take (nat ?k) ps"
    by (simp add: js_slice_def toIntegerOrZero_def idx) (simp add: relativeIndex_def)
  ultimately show ?thesis
    by (simp add: rotateSpeakersLocal_def off)
qed

lemma rotateSpeakersLocal_rotate:
  assumes "ps \<noteq> []" and "1 \<le> r" and "r \<le> 2 ^ 53"
  shows "rotateSpeakersLocal ps r = rotate (nat ((r - 1) mod int (length ps))) ps"
proof -
  let ?k = "nat ((r - 1) mod int (length ps))"
  from assms have "?k < length ps"
    by (simp add: nat_less_iff)
  then have "?k mod length ps = ?k" by simp
  then show ?thesis
    using rotateSpeakersLocal_drop_take [OF assms] by (simp add: rotate_drop_take)
qed

lemma rotate_as_map:
  assumes "ps \<noteq> []"
  shows "rotate m ps = map (\<lambda>k. hd (rotate (m + k) ps)) [0..<length ps]"
proof (rule nth_equalityI)
  show "length (rotate m ps) = length (map (\<lambda>k. hd (rotate (m + k) ps)) [0..<length ps])"
    by simp
next
  fix i assume "i < length (rotate m ps)"
  then have i: "i < length ps" by simp
  have "rotate m ps ! i = ps ! ((m + i) mod length ps)"
    using i by (simp add: nth_rotate)
  also have "\<dots> = hd (rotate (m + i) ps)"
    using assms by (simp add: hd_rotate_conv_nth)
  finally show "rotate m ps ! i = map (\<lambda>k. hd (rotate (m + k) ps)) [0..<length ps] ! i"
    using i by simp
qed

lemma mset_rotate_eq: "mset (rotate m ps) = mset ps"
proof -
  let ?k = "m mod length ps"
  have "mset (drop ?k ps @ take ?k ps) = mset (take ?k ps @ drop ?k ps)"
    by (simp only: mset_append add.commute)
  then show ?thesis by (simp add: rotate_drop_take)
qed

lemma rotate_mod_length: "rotate (m mod length ps) ps = rotate m ps"
  by (simp add: rotate_drop_take)

lemma leaders_eq:
  assumes "ps \<noteq> []" and "1 \<le> r" and "r + int (length ps) \<le> 2 ^ 53"
  shows "map (\<lambda>k. hd (rotateSpeakersLocal ps (r + int k))) [0..<length ps] = rotateSpeakersLocal ps r"
proof -
  let ?n = "length ps"
  let ?m = "nat (r - 1)"
  have step: "rotateSpeakersLocal ps (r + int k) = rotate (?m + k) ps" if "k \<le> ?n" for k
  proof -
    have "1 \<le> r + int k" using assms by simp
    moreover have "r + int k \<le> 2 ^ 53" using assms that by simp
    ultimately have "rotateSpeakersLocal ps (r + int k) = rotate (nat ((r + int k - 1) mod int ?n)) ps"
      using assms(1) by (rule rotateSpeakersLocal_rotate [rotated])
    also have "nat ((r + int k - 1) mod int ?n) = (?m + k) mod ?n"
    proof -
      have "r + int k - 1 = int (?m + k)" using assms by simp
      then have "(r + int k - 1) mod int ?n = int ((?m + k) mod ?n)"
        by (simp only: zmod_int)
      then show ?thesis by simp
    qed
    finally show ?thesis by (simp add: rotate_mod_length)
  qed
  have "rotateSpeakersLocal ps r = rotate ?m ps"
    using step [of 0] by simp
  also have "\<dots> = map (\<lambda>k. hd (rotate (?m + k) ps)) [0..<?n]"
    using assms(1) by (rule rotate_as_map)
  also have "\<dots> = map (\<lambda>k. hd (rotateSpeakersLocal ps (r + int k))) [0..<?n]"
    by (rule map_cong) (simp_all add: step)
  finally show ?thesis by simp
qed

text \<open>
  Claim C1, as amended. For every non-empty participant list and every round number
  \<open>r\<close> with \<open>1 \<le> r \<le> 2 ^ 53\<close>, the range in which \<^verbatim>\<open>round - 1\<close> is computed
  exactly, the speaker order of round \<open>r\<close> is the list rotated left by
  \<open>(r - 1) mod N\<close>, that is the elements from that offset on followed by the elements
  before it. For the participants claude, codex, gemini, round 1 gives claude, codex,
  gemini; round 2 gives codex, gemini, claude; round 3 gives gemini, claude, codex;
  round 4 gives the order of round 1 again.
\<close>

theorem rotation_correct:
  "(\<forall>(ps :: 'a list) r. ps \<noteq> [] \<and> 1 \<le> r \<and> r \<le> 2 ^ 53 \<longrightarrow>
       rotateSpeakersLocal ps r = rotate (nat ((r - 1) mod int (length ps))) ps
     \<and> rotateSpeakersLocal ps r =
         drop (nat ((r - 1) mod int (length ps))) ps @ take (nat ((r - 1) mod int (length ps))) ps)
   \<and> rotateSpeakersLocal [Claude, Codex, Gemini] 1 = [Claude, Codex, Gemini]
   \<and> rotateSpeakersLocal [Claude, Codex, Gemini] 2 = [Codex, Gemini, Claude]
   \<and> rotateSpeakersLocal [Claude, Codex, Gemini] 3 = [Gemini, Claude, Codex]
   \<and> rotateSpeakersLocal [Claude, Codex, Gemini] 4 = [Claude, Codex, Gemini]"
proof (intro conjI allI impI)
  fix ps :: "'a list" and r :: int
  assume h: "ps \<noteq> [] \<and> 1 \<le> r \<and> r \<le> 2 ^ 53"
  then show "rotateSpeakersLocal ps r = rotate (nat ((r - 1) mod int (length ps))) ps"
    by (simp add: rotateSpeakersLocal_rotate)
  from h show "rotateSpeakersLocal ps r =
      drop (nat ((r - 1) mod int (length ps))) ps @ take (nat ((r - 1) mod int (length ps))) ps"
    by (simp add: rotateSpeakersLocal_drop_take)
qed (simp_all add: rotateSpeakersLocal_def toDouble_exact js_rem_def js_slice_def js_slice_from_def
       relativeIndex_def toIntegerOrZero_def)

theorem rotation_correct_witness:
  "[Codex, Gemini] \<noteq> [] \<and> (1::int) \<le> 5 \<and> (5::int) \<le> 2 ^ 53
   \<and> rotateSpeakersLocal [Codex, Gemini] 5
       = rotate (nat ((5 - 1) mod int (length [Codex, Gemini]))) [Codex, Gemini]
   \<and> rotateSpeakersLocal [Codex, Gemini] 5 = [Codex, Gemini]"
  using rotation_correct [where 'a = cliName] by (simp add: numeral_2_eq_2)

text \<open>
  The claim as first stated, for every round number \<open>r \<ge> 1\<close>, fails beyond that range.
  For the round \<open>2 ^ 53 + 2\<close> the difference \<^verbatim>\<open>round - 1\<close> is rounded to \<open>2 ^ 53\<close>,
  whose remainder by 3 is 2, and the order is gemini, claude, codex; the rotation by
  \<open>(r - 1) mod 3 = 0\<close> is claude, codex, gemini.
\<close>

theorem rotation_unbounded_counterexample:
  "\<not> (rotateSpeakersLocal [Claude, Codex, Gemini] 9007199254740994
        = rotate (nat ((9007199254740994 - 1) mod int (length [Claude, Codex, Gemini])))
            [Claude, Codex, Gemini])"
  by (simp add: rotate_beyond_safe)

text \<open>
  Claim C8, as amended. For every duplicate-free non-empty participant list of length
  \<open>N\<close> and every round \<open>r \<ge> 1\<close> with \<open>r + N \<le> 2 ^ 53\<close>, the rotation has period \<open>N\<close>:
  round \<open>r + N\<close> has the speaker order of round \<open>r\<close>; and the first speakers of the \<open>N\<close>
  consecutive rounds \<open>r, r + 1, \<dots>, r + N - 1\<close> are pairwise distinct and form a
  permutation of the participants, so that each participant leads exactly once in a
  full cycle.
\<close>

theorem rotation_periodic_leaders:
  assumes "distinct ps" and "ps \<noteq> []" and "1 \<le> r" and "r + int (length ps) \<le> 2 ^ 53"
  shows "rotateSpeakersLocal ps (r + int (length ps)) = rotateSpeakersLocal ps r
       \<and> distinct (map (\<lambda>k. hd (rotateSpeakersLocal ps (r + int k))) [0..<length ps])
       \<and> mset (map (\<lambda>k. hd (rotateSpeakersLocal ps (r + int k))) [0..<length ps]) = mset ps"
proof (intro conjI)
  have small: "r \<le> 2 ^ 53" using assms by simp
  have "1 \<le> r + int (length ps)" using assms by simp
  then have "rotateSpeakersLocal ps (r + int (length ps))
      = rotate (nat ((r + int (length ps) - 1) mod int (length ps))) ps"
    using assms by (simp add: rotateSpeakersLocal_rotate)
  also have "(r + int (length ps) - 1) mod int (length ps) = (r - 1) mod int (length ps)"
  proof -
    have "r + int (length ps) - 1 = (r - 1) + int (length ps)" by simp
    then show ?thesis by (simp only: mod_add_self2)
  qed
  finally show "rotateSpeakersLocal ps (r + int (length ps)) = rotateSpeakersLocal ps r"
    using assms small by (simp add: rotateSpeakersLocal_rotate)
  have rot: "rotateSpeakersLocal ps r = rotate (nat ((r - 1) mod int (length ps))) ps"
    using assms small by (simp add: rotateSpeakersLocal_rotate)
  have lead: "map (\<lambda>k. hd (rotateSpeakersLocal ps (r + int k))) [0..<length ps]
      = rotateSpeakersLocal ps r"
    using assms(2,3,4) by (rule leaders_eq)
  show "distinct (map (\<lambda>k. hd (rotateSpeakersLocal ps (r + int k))) [0..<length ps])"
    using assms(1) by (simp add: lead rot)
  show "mset (map (\<lambda>k. hd (rotateSpeakersLocal ps (r + int k))) [0..<length ps]) = mset ps"
    by (simp add: lead rot mset_rotate_eq)
qed

theorem rotation_periodic_leaders_witness:
  "distinct [Claude, Codex, Gemini] \<and> [Claude, Codex, Gemini] \<noteq> [] \<and> (1::int) \<le> 2
   \<and> 2 + int (length [Claude, Codex, Gemini]) \<le> 2 ^ 53
   \<and> rotateSpeakersLocal [Claude, Codex, Gemini] (2 + int (length [Claude, Codex, Gemini]))
       = rotateSpeakersLocal [Claude, Codex, Gemini] 2
   \<and> map (\<lambda>k. hd (rotateSpeakersLocal [Claude, Codex, Gemini] (2 + int k)))
         [0..<length [Claude, Codex, Gemini]] = [Codex, Gemini, Claude]
   \<and> distinct (map (\<lambda>k. hd (rotateSpeakersLocal [Claude, Codex, Gemini] (2 + int k)))
         [0..<length [Claude, Codex, Gemini]])
   \<and> mset (map (\<lambda>k. hd (rotateSpeakersLocal [Claude, Codex, Gemini] (2 + int k)))
         [0..<length [Claude, Codex, Gemini]]) = mset [Claude, Codex, Gemini]"
proof -
  have d: "distinct [Claude, Codex, Gemini]" by simp
  have n: "[Claude, Codex, Gemini] \<noteq> []" by simp
  have r: "(1::int) \<le> 2" by simp
  have b: "2 + int (length [Claude, Codex, Gemini]) \<le> 2 ^ 53" by simp
  have leaders: "map (\<lambda>k. hd (rotateSpeakersLocal [Claude, Codex, Gemini] (2 + int k)))
         [0..<length [Claude, Codex, Gemini]] = [Codex, Gemini, Claude]"
    by (simp add: rotateSpeakersLocal_def toDouble_exact js_rem_def js_slice_def js_slice_from_def
          relativeIndex_def toIntegerOrZero_def upt_rec)
  from rotation_periodic_leaders [OF d n r b] d n r b leaders show ?thesis
    by blast
qed

text \<open>
  The claim as first stated, for every round \<open>r\<close>, fails beyond that range. For three
  participants and \<open>r = 2 ^ 53 - 1\<close>, round \<open>r\<close> has the offset 0 and round
  \<open>r + 3 = 2 ^ 53 + 2\<close> the offset 2: the two orders differ.
\<close>

theorem rotation_period_counterexample:
  "\<not> (rotateSpeakersLocal [Claude, Codex, Gemini]
          (9007199254740991 + int (length [Claude, Codex, Gemini]))
        = rotateSpeakersLocal [Claude, Codex, Gemini] 9007199254740991)"
  by (simp add: rotate_beyond_safe rotate_last_safe)

section \<open>The replay buffer: properties\<close>

lemma trimReplay_inv:
  assumes "sz = sum_list (map (\<lambda>c. int (length c)) chunks)"
  shows "snd (trimReplay chunks sz) = sum_list (map (\<lambda>c. int (length c)) (fst (trimReplay chunks sz)))
       \<and> suffix (fst (trimReplay chunks sz)) chunks
       \<and> (snd (trimReplay chunks sz) > REPLAY_BUFFER_MAX \<longrightarrow> length (fst (trimReplay chunks sz)) \<le> 1)"
  using assms
proof (induction chunks sz rule: trimReplay.induct)
  case (1 chunks sz)
  show ?case
  proof (cases "sz > REPLAY_BUFFER_MAX \<and> length chunks > 1")
    case True
    then obtain c cs where cs: "chunks = c # cs" by (cases chunks) auto
    have eq: "trimReplay chunks sz = trimReplay (tl chunks) (sz - int (length (hd chunks)))"
      using True by (subst trimReplay.simps) simp
    have "sz - int (length (hd chunks)) = sum_list (map (\<lambda>c. int (length c)) (tl chunks))"
      using "1.prems" cs by simp
    from "1.IH" [OF True this] show ?thesis
      unfolding eq using cs by (auto simp: suffix_Cons)
  next
    case False
    then have eq: "trimReplay chunks sz = (chunks, sz)"
      by (subst trimReplay.simps) auto
    show ?thesis unfolding eq using False "1.prems" by auto
  qed
qed

lemma int_length_concat: "int (length (concat xs)) = sum_list (map (\<lambda>c. int (length c)) xs)"
  by (induction xs) simp_all

lemma suffix_concat: "suffix xs ys \<Longrightarrow> suffix (concat xs) (concat ys)"
  by (auto simp: suffix_def)

lemma emittedData_snoc:
  "emittedData w (evs @ [e]) = emittedData w evs @ (case e of PtyData d \<Rightarrow> [normalizeOutput w d] | PtyExit \<Rightarrow> [])"
  by (induction w evs rule: emittedData.induct) (auto split: pty_event.splits)

lemma runSession_inv:
  "replaySize (runSession w evs) = sum_list (map (\<lambda>c. int (length c)) (replayChunks (runSession w evs)))
   \<and> suffix (replayChunks (runSession w evs)) (emittedData w evs)
   \<and> (replaySize (runSession w evs) > REPLAY_BUFFER_MAX \<longrightarrow> length (replayChunks (runSession w evs)) \<le> 1)"
proof (induction evs rule: rev_induct)
  case Nil
  show ?case by (simp add: runSession_def newSession_def REPLAY_BUFFER_MAX_def)
next
  case (snoc e evs)
  let ?s = "runSession w evs"
  have run: "runSession w (evs @ [e]) = handleEvent w ?s e"
    by (simp add: runSession_def)
  show ?case
  proof (cases e)
    case PtyExit
    with snoc run show ?thesis by (simp add: onExit_def emittedData_snoc)
  next
    case (PtyData d)
    let ?n = "normalizeOutput w d"
    let ?chunks = "replayChunks ?s @ [?n]"
    let ?sz = "replaySize ?s + int (length ?n)"
    have sz: "?sz = sum_list (map (\<lambda>c. int (length c)) ?chunks)"
      using snoc by simp
    note inv = trimReplay_inv [OF sz]
    have st: "replayChunks (runSession w (evs @ [e])) = fst (trimReplay ?chunks ?sz)"
             "replaySize (runSession w (evs @ [e])) = snd (trimReplay ?chunks ?sz)"
      using run PtyData by (simp_all add: onData_def Let_def split: prod.splits)
    have "suffix ?chunks (emittedData w (evs @ [e]))"
      using snoc PtyData by (simp add: emittedData_snoc)
    with inv have "suffix (fst (trimReplay ?chunks ?sz)) (emittedData w (evs @ [e]))"
      using suffix_order.trans by blast
    with inv st show ?thesis by simp
  qed
qed


text \<open>
  Claim C9. After every event a session has handled, \<^verbatim>\<open>_replaySize\<close> is the sum of the
  lengths of the buffered chunks; \<^verbatim>\<open>getReplayBuffer\<close> returns their concatenation,
  which is a suffix of the normalised output emitted so far (the buffered chunks are
  the most recent emitted chunks); and whenever the size exceeds
  \<^verbatim>\<open>REPLAY_BUFFER_MAX\<close> the buffer holds exactly one chunk, which alone is longer
  than the cap.
\<close>

theorem replay_buffer_invariant:
  "replaySize (runSession w evs)
     = sum_list (map (\<lambda>c. int (length c)) (replayChunks (runSession w evs)))
   \<and> getReplayBuffer (runSession w evs) = concat (replayChunks (runSession w evs))
   \<and> suffix (replayChunks (runSession w evs)) (emittedData w evs)
   \<and> suffix (getReplayBuffer (runSession w evs)) (concat (emittedData w evs))
   \<and> (replaySize (runSession w evs) > REPLAY_BUFFER_MAX \<longrightarrow>
        (\<exists>c. replayChunks (runSession w evs) = [c] \<and> int (length c) > REPLAY_BUFFER_MAX))
   \<and> (int (length (getReplayBuffer (runSession w evs))) > REPLAY_BUFFER_MAX \<longrightarrow>
        length (replayChunks (runSession w evs)) = 1)"
proof -
  let ?s = "runSession w evs"
  note inv = runSession_inv [of w evs]
  have total: "replaySize ?s = sum_list (map (\<lambda>c. int (length c)) (replayChunks ?s))"
    using inv by simp
  have buf: "getReplayBuffer ?s = concat (replayChunks ?s)"
    by (simp add: getReplayBuffer_def)
  have len: "int (length (getReplayBuffer ?s)) = replaySize ?s"
    by (simp add: buf total int_length_concat)
  have suf: "suffix (replayChunks ?s) (emittedData w evs)"
    using inv by simp
  have one: "\<exists>c. replayChunks ?s = [c] \<and> int (length c) > REPLAY_BUFFER_MAX"
    if big: "replaySize ?s > REPLAY_BUFFER_MAX"
  proof -
    from inv big have le: "length (replayChunks ?s) \<le> 1" by simp
    have "replayChunks ?s \<noteq> []"
      using big total by (auto simp: REPLAY_BUFFER_MAX_def)
    with le obtain c where c: "replayChunks ?s = [c]"
      by (cases "replayChunks ?s") auto
    with big total show ?thesis by simp
  qed
  from total buf suf one len show ?thesis
    by (auto simp: suffix_concat)
qed

lemma length_bigChunk: "length bigChunk = 262145"
  by (simp only: bigChunk_def length_replicate)

lemma run_big: "runSession False [PtyData bigChunk] = \<lparr> status = Running, replayChunks = [bigChunk], replaySize = 262145 \<rparr>"
  by (simp add: runSession_def newSession_def onData_def normalizeOutput_def length_bigChunk
        trimReplay.simps REPLAY_BUFFER_MAX_def)

lemma run_big2: "runSession False [PtyData bigChunk, PtyData (js ''ok'')] = \<lparr> status = Running, replayChunks = [js ''ok''], replaySize = 2 \<rparr>"
  by (simp add: runSession_def newSession_def onData_def normalizeOutput_def length_bigChunk
        trimReplay.simps REPLAY_BUFFER_MAX_def js_def)

theorem replay_buffer_invariant_witness:
  "replaySize (runSession False [PtyData bigChunk]) > REPLAY_BUFFER_MAX
   \<and> int (length (getReplayBuffer (runSession False [PtyData bigChunk]))) > REPLAY_BUFFER_MAX
   \<and> replayChunks (runSession False [PtyData bigChunk]) = [bigChunk]
   \<and> length (replayChunks (runSession False [PtyData bigChunk])) = 1
   \<and> suffix (getReplayBuffer (runSession False [PtyData bigChunk]))
        (concat (emittedData False [PtyData bigChunk]))"
  using replay_buffer_invariant [of False "[PtyData bigChunk]"]
  by (simp add: run_big getReplayBuffer_def length_bigChunk REPLAY_BUFFER_MAX_def)

section \<open>Configuration: properties\<close>

lemmas check_defs =
  check_readyKeyword_def check_readyProbePrompt_def check_systemPrompt_def
  check_discussionTemplate_def check_readyTimeoutMs_def check_idleCompleteMs_def
  check_questionTimeoutMs_def check_discussionRounds_def check_discussionTurnTimeoutMs_def
  check_enableConsensusSummary_def check_enablePlanGeneration_def check_discussionLanguage_def

lemma validate_example: "validateConfig exampleConfig = []"
  by (simp add: validateConfig_def exampleConfig_def check_defs
    isBlank_def trim_def isWhiteSpace_def matchesWord_def isWordChar_def js_def typeofBoolean_def js_greater_def)

lemma isInteger_iff: "isInteger v \<longleftrightarrow> (\<exists>n::int. v = Finite (of_int n))"
proof (cases v)
  case (Finite q)
  show ?thesis
  proof
    assume "isInteger v"
    with Finite have "of_int \<lfloor>q\<rfloor> = q" by (simp only: isInteger.simps)
    then have "q = of_int \<lfloor>q\<rfloor>" by (rule sym)
    with Finite show "\<exists>n::int. v = Finite (of_int n)" by blast
  next
    assume "\<exists>n::int. v = Finite (of_int n)"
    then obtain n :: int where "v = Finite (of_int n)" by blast
    then show "isInteger v" by simp
  qed
qed simp_all

lemma in_range_iff:
  "\<not> (\<not> isInteger v \<or> js_less v (Finite (of_int lo)) \<or> js_greater v (Finite (of_int hi)))
     \<longleftrightarrow> (\<exists>n::int. lo \<le> n \<and> n \<le> hi \<and> v = Finite (of_int n))"
  by (auto simp: isInteger_iff js_greater_def)

lemma check_discussionRounds_empty_iff:
  "check_discussionRounds c = [] \<longleftrightarrow> (\<exists>n::int. 1 \<le> n \<and> n \<le> 10 \<and> discussionRounds c = Finite (of_int n))"
proof -
  have "check_discussionRounds c = [] \<longleftrightarrow>
      \<not> (\<not> isInteger (discussionRounds c) \<or> js_less (discussionRounds c) (Finite (of_int 1))
           \<or> js_greater (discussionRounds c) (Finite (of_int 10)))"
    by (simp add: check_discussionRounds_def)
  then show ?thesis by (simp only: in_range_iff)
qed

lemma check_discussionRounds_field:
  "e \<in> set (check_discussionRounds c) \<Longrightarrow> field e = js ''discussionRounds''"
  by (auto simp: check_discussionRounds_def split: if_splits)

lemma other_checks_field:
  "e \<in> set (check_readyKeyword c) \<Longrightarrow> field e = js ''readyKeyword''"
  "e \<in> set (check_readyProbePrompt c) \<Longrightarrow> field e = js ''readyProbePrompt''"
  "e \<in> set (check_systemPrompt c) \<Longrightarrow> field e = js ''systemPrompt''"
  "e \<in> set (check_discussionTemplate c) \<Longrightarrow> field e = js ''discussionTemplate''"
  "e \<in> set (check_readyTimeoutMs c) \<Longrightarrow> field e = js ''readyTimeoutMs''"
  "e \<in> set (check_idleCompleteMs c) \<Longrightarrow> field e = js ''idleCompleteMs''"
  "e \<in> set (check_questionTimeoutMs c) \<Longrightarrow> field e = js ''questionTimeoutMs''"
  "e \<in> set (check_discussionTurnTimeoutMs c) \<Longrightarrow> field e = js ''discussionTurnTimeoutMs''"
  "e \<in> set (check_enableConsensusSummary c) \<Longrightarrow> field e = js ''enableConsensusSummary''"
  "e \<in> set (check_enablePlanGeneration c) \<Longrightarrow> field e = js ''enablePlanGeneration''"
  "e \<in> set (check_discussionLanguage c) \<Longrightarrow> field e = js ''discussionLanguage''"
  by (auto simp: check_defs split: if_splits)

lemma other_fields_differ:
  "js ''readyKeyword'' \<noteq> js ''discussionRounds''"
  "js ''readyProbePrompt'' \<noteq> js ''discussionRounds''"
  "js ''systemPrompt'' \<noteq> js ''discussionRounds''"
  "js ''discussionTemplate'' \<noteq> js ''discussionRounds''"
  "js ''readyTimeoutMs'' \<noteq> js ''discussionRounds''"
  "js ''idleCompleteMs'' \<noteq> js ''discussionRounds''"
  "js ''questionTimeoutMs'' \<noteq> js ''discussionRounds''"
  "js ''discussionTurnTimeoutMs'' \<noteq> js ''discussionRounds''"
  "js ''enableConsensusSummary'' \<noteq> js ''discussionRounds''"
  "js ''enablePlanGeneration'' \<noteq> js ''discussionRounds''"
  "js ''discussionLanguage'' \<noteq> js ''discussionRounds''"
  by (simp_all add: js_def)

lemma discussionRounds_error_iff:
  "(\<exists>e \<in> set (validateConfig c). field e = js ''discussionRounds'') \<longleftrightarrow> check_discussionRounds c \<noteq> []"
proof
  assume "\<exists>e \<in> set (validateConfig c). field e = js ''discussionRounds''"
  then obtain e where e: "e \<in> set (validateConfig c)" and f: "field e = js ''discussionRounds''"
    by blast
  from e have "e \<in> set (check_discussionRounds c)"
    unfolding validateConfig_def set_append Un_iff
    using f other_checks_field [of e c] other_fields_differ by metis
  then show "check_discussionRounds c \<noteq> []" by auto
next
  assume "check_discussionRounds c \<noteq> []"
  then obtain e where e: "e \<in> set (check_discussionRounds c)"
    by (cases "check_discussionRounds c") auto
  then have "e \<in> set (validateConfig c)" by (simp add: validateConfig_def)
  with e check_discussionRounds_field show "\<exists>e \<in> set (validateConfig c). field e = js ''discussionRounds''"
    by blast
qed

text \<open>
  Claim C4. \<^verbatim>\<open>validateConfig\<close> reports an error for the field
  \<^verbatim>\<open>discussionRounds\<close> if and only if \<^verbatim>\<open>discussionRounds\<close> is not an integer between
  1 and 10 inclusive; hence every configuration for which \<^verbatim>\<open>validateConfig\<close> returns no
  error has an integer \<^verbatim>\<open>discussionRounds\<close> with \<open>1 \<le> discussionRounds \<le> 10\<close>.
\<close>

theorem discussionRounds_validated:
  "((\<exists>e \<in> set (validateConfig c). field e = js ''discussionRounds'')
      \<longleftrightarrow> \<not> (\<exists>n::int. 1 \<le> n \<and> n \<le> 10 \<and> discussionRounds c = Finite (of_int n)))
   \<and> (validateConfig c = [] \<longrightarrow>
        (\<exists>n::int. 1 \<le> n \<and> n \<le> 10 \<and> discussionRounds c = Finite (of_int n)))"
proof
  show "(\<exists>e \<in> set (validateConfig c). field e = js ''discussionRounds'')
      \<longleftrightarrow> \<not> (\<exists>n::int. 1 \<le> n \<and> n \<le> 10 \<and> discussionRounds c = Finite (of_int n))"
    by (simp only: discussionRounds_error_iff check_discussionRounds_empty_iff)
  show "validateConfig c = [] \<longrightarrow>
        (\<exists>n::int. 1 \<le> n \<and> n \<le> 10 \<and> discussionRounds c = Finite (of_int n))"
  proof
    assume "validateConfig c = []"
    then have "check_discussionRounds c = []" by (simp add: validateConfig_def)
    then show "\<exists>n::int. 1 \<le> n \<and> n \<le> 10 \<and> discussionRounds c = Finite (of_int n)"
      by (simp only: check_discussionRounds_empty_iff)
  qed
qed

theorem discussionRounds_validated_witness:
  "validateConfig exampleConfig = []
   \<and> (\<exists>n::int. 1 \<le> n \<and> n \<le> 10 \<and> discussionRounds exampleConfig = Finite (of_int n))
   \<and> \<not> (\<exists>e \<in> set (validateConfig exampleConfig). field e = js ''discussionRounds'')"
  using discussionRounds_validated [of exampleConfig] validate_example by simp

lemma validate_eleven:
  "validateConfig (exampleConfig\<lparr> discussionRounds := Finite 11 \<rparr>)
     = [\<lparr> field = js ''discussionRounds'', message = msgIntegerIn ''1-10'' [] \<rparr>]"
  by (simp add: validateConfig_def exampleConfig_def check_defs
    isBlank_def trim_def isWhiteSpace_def matchesWord_def isWordChar_def js_def typeofBoolean_def js_greater_def)

text \<open>
  Claim C10, as amended. \<^verbatim>\<open>saveConfig\<close> calls the file system if and only if
  \<^verbatim>\<open>validateConfig\<close> returns an empty list. When validation yields errors,
  \<^verbatim>\<open>saveConfig\<close> returns \<^verbatim>\<open>ok: false\<close> with exactly those errors, issues no
  file-system call and leaves the stored configuration as it was. When validation
  passes and neither call throws, the configuration file holds the serialised
  configuration and the result is \<^verbatim>\<open>ok: true\<close>. When validation passes and a call
  throws, the result is \<^verbatim>\<open>ok: false\<close> with a single error for the field \<^verbatim>\<open>_\<close>; so
  the file is written exactly when validation passes and no call throws.
\<close>

theorem saveConfig_gated:
  "(validateConfig c \<noteq> [] \<longrightarrow>
      saveConfig str fault c disk = (\<lparr> ok = False, errors = Some (validateConfig c) \<rparr>, disk))
   \<and> (validateConfig c = [] \<longrightarrow>
      saveConfig str NoFault c disk
        = (\<lparr> ok = True, errors = None \<rparr>,
           disk\<lparr> dataDirExists := True, configFile := Some (str c),
                 calls := calls disk @ [MkdirSync, WriteFileSync (str c)] \<rparr>))
   \<and> (validateConfig c = [] \<and> fault \<noteq> NoFault \<longrightarrow>
      (\<exists>e. fst (saveConfig str fault c disk)
             = \<lparr> ok = False, errors = Some [\<lparr> field = js ''_'', message = msgWriteFailed e \<rparr>] \<rparr>))
   \<and> (calls (snd (saveConfig str fault c disk)) \<noteq> calls disk \<longleftrightarrow> validateConfig c = [])
   \<and> (wroteConfigFile str fault c disk \<longleftrightarrow> validateConfig c = [] \<and> fault = NoFault)"
proof (intro conjI impI)
  assume "validateConfig c \<noteq> []"
  then show "saveConfig str fault c disk
      = (\<lparr> ok = False, errors = Some (validateConfig c) \<rparr>, disk)"
    by (simp add: saveConfig_def)
next
  assume "validateConfig c = []"
  then show "saveConfig str NoFault c disk
        = (\<lparr> ok = True, errors = None \<rparr>,
           disk\<lparr> dataDirExists := True, configFile := Some (str c),
                 calls := calls disk @ [MkdirSync, WriteFileSync (str c)] \<rparr>)"
    by (simp add: saveConfig_def)
next
  assume "validateConfig c = [] \<and> fault \<noteq> NoFault"
  then show "\<exists>e. fst (saveConfig str fault c disk)
             = \<lparr> ok = False, errors = Some [\<lparr> field = js ''_'', message = msgWriteFailed e \<rparr>] \<rparr>"
    by (cases fault) (auto simp: saveConfig_def)
next
  show "calls (snd (saveConfig str fault c disk)) \<noteq> calls disk \<longleftrightarrow> validateConfig c = []"
  proof (cases "validateConfig c = []")
    case True
    then show ?thesis
      by (cases fault) (simp_all add: saveConfig_def)
  next
    case False
    then show ?thesis
      by (simp add: saveConfig_def)
  qed
next
  show "wroteConfigFile str fault c disk \<longleftrightarrow> validateConfig c = [] \<and> fault = NoFault"
  proof (cases "validateConfig c = []")
    case True
    then show ?thesis
      by (cases fault) (simp_all add: wroteConfigFile_def saveConfig_def)
  next
    case False
    then show ?thesis
      by (simp add: wroteConfigFile_def saveConfig_def)
  qed
qed

lemma save_example_mkdir_throws:
  "saveConfig exampleStringify (MkdirThrows (js ''Error: EACCES'')) exampleConfig exampleDisk
     = (\<lparr> ok = False,
          errors = Some [\<lparr> field = js ''_'', message = msgWriteFailed (js ''Error: EACCES'') \<rparr>] \<rparr>,
        exampleDisk\<lparr> calls := [MkdirSync] \<rparr>)"
  by (simp add: saveConfig_def validate_example exampleDisk_def)

theorem saveConfig_gated_witness:
  "validateConfig (exampleConfig\<lparr> discussionRounds := Finite 11 \<rparr>) \<noteq> []
   \<and> saveConfig exampleStringify NoFault (exampleConfig\<lparr> discussionRounds := Finite 11 \<rparr>) exampleDisk
       = (\<lparr> ok = False,
            errors = Some [\<lparr> field = js ''discussionRounds'', message = msgIntegerIn ''1-10'' [] \<rparr>] \<rparr>,
          exampleDisk)
   \<and> validateConfig exampleConfig = []
   \<and> wroteConfigFile exampleStringify NoFault exampleConfig exampleDisk
   \<and> configFile (snd (saveConfig exampleStringify NoFault exampleConfig exampleDisk))
       = Some (exampleStringify exampleConfig)
   \<and> MkdirThrows (js ''Error: EACCES'') \<noteq> NoFault
   \<and> fst (saveConfig exampleStringify (MkdirThrows (js ''Error: EACCES'')) exampleConfig exampleDisk)
       = \<lparr> ok = False,
           errors = Some [\<lparr> field = js ''_'', message = msgWriteFailed (js ''Error: EACCES'') \<rparr>] \<rparr>
   \<and> \<not> wroteConfigFile exampleStringify (MkdirThrows (js ''Error: EACCES'')) exampleConfig exampleDisk"
  using saveConfig_gated [of "exampleConfig\<lparr> discussionRounds := Finite 11 \<rparr>" exampleStringify NoFault exampleDisk]
        saveConfig_gated [of exampleConfig exampleStringify NoFault exampleDisk]
        saveConfig_gated [of exampleConfig exampleStringify "MkdirThrows (js ''Error: EACCES'')" exampleDisk]
        validate_example validate_eleven save_example_mkdir_throws
  by simp

text \<open>
  The claim as first stated, that the configuration file is written if and only if
  validation passes, fails where \<^verbatim>\<open>mkdirSync\<close> throws: the configuration is valid and
  no file is written.
\<close>

theorem saveConfig_iff_counterexample:
  "\<not> (wroteConfigFile exampleStringify (MkdirThrows (js ''Error: EACCES'')) exampleConfig exampleDisk
        \<longleftrightarrow> validateConfig exampleConfig = [])"
  by (simp add: validate_example wroteConfigFile_def saveConfig_def)

section \<open>The dashboard: properties\<close>

lemma handleMessage_discussionComplete:
  assumes "msgType m = Some (js ''ultraplan.discussionComplete'')"
  shows "handleMessage m st =
           (if p_status (payloadOf m) = Some (js ''completed'') then st\<lparr> workflowStage := Consensus \<rparr>
            else if p_status (payloadOf m) = Some (js ''failed'') then st\<lparr> workflowStage := Complete \<rparr>
            else st)"
  using assms by (simp add: handleMessage_def js_def)

lemma handleMessage_discussionFileInit:
  assumes "msgType m = Some (js ''ultraplan.discussionFileInit'')"
  shows "handleMessage m st =
           (if p_status (payloadOf m) = Some (js ''skipped'') then st\<lparr> workflowStage := Complete \<rparr>
            else st\<lparr> workflowStage := DiscussionInit \<rparr>)"
  using assms by (simp add: handleMessage_def js_def)

lemma handleMessage_userInputNeeded:
  assumes "msgType m = Some (js ''ultraplan.userInputNeeded'')"
  shows "handleMessage m st =
           st\<lparr> userInputQuestions := (case p_questions (payloadOf m) of None \<Rightarrow> [] | Some qs \<Rightarrow> qs),
                userInputRound := (case p_round (payloadOf m) of None \<Rightarrow> Finite 0 | Some r \<Rightarrow> r),
                userInputAnswers := Map.empty,
                userInputPending := True \<rparr>"
  using assms by (simp add: handleMessage_def js_def Let_def)

text \<open>
  Claim C5. For every \<^verbatim>\<open>ultraplan.discussionComplete\<close> event that the message
  handler of the dashboard's current socket receives: if the payload's status is
  \<^verbatim>\<open>completed\<close> the workflow stage becomes \<^verbatim>\<open>consensus\<close>; if it is
  \<^verbatim>\<open>failed\<close> the stage becomes \<^verbatim>\<open>complete\<close> at once, without passing through
  \<^verbatim>\<open>consensus\<close> or \<^verbatim>\<open>plan-generation\<close>. Nothing else of the state changes.
  (\<^verbatim>\<open>connect\<close> closes the previous socket before it installs a new one, and a
  closed socket delivers no message; the socket of a message is the current one.)
\<close>

theorem discussionComplete_stage:
  assumes "wsRef st = Some socket"
    and "msgType m = Some (js ''ultraplan.discussionComplete'')"
  shows "(p_status (payloadOf m) = Some (js ''completed'') \<longrightarrow>
            onmessage socket (Some m) st = st\<lparr> workflowStage := Consensus \<rparr>
          \<and> workflowStage (onmessage socket (Some m) st) = Consensus)
       \<and> (p_status (payloadOf m) = Some (js ''failed'') \<longrightarrow>
            onmessage socket (Some m) st = st\<lparr> workflowStage := Complete \<rparr>
          \<and> workflowStage (onmessage socket (Some m) st) = Complete)"
  using assms by (simp add: onmessage_def handleMessage_discussionComplete js_def)

theorem discussionComplete_stage_witness:
  "wsRef exampleApp = Some 1
   \<and> msgType (exampleMessage ''ultraplan.discussionComplete'' ''completed'')
       = Some (js ''ultraplan.discussionComplete'')
   \<and> p_status (payloadOf (exampleMessage ''ultraplan.discussionComplete'' ''completed''))
       = Some (js ''completed'')
   \<and> workflowStage (onmessage 1 (Some (exampleMessage ''ultraplan.discussionComplete'' ''completed''))
        exampleApp) = Consensus
   \<and> msgType (exampleMessage ''ultraplan.discussionComplete'' ''failed'')
       = Some (js ''ultraplan.discussionComplete'')
   \<and> p_status (payloadOf (exampleMessage ''ultraplan.discussionComplete'' ''failed''))
       = Some (js ''failed'')
   \<and> workflowStage (onmessage 1 (Some (exampleMessage ''ultraplan.discussionComplete'' ''failed''))
        exampleApp) = Complete"
proof -
  have w: "wsRef exampleApp = Some 1"
    by (simp add: exampleApp_def initialApp_def)
  have t: "msgType (exampleMessage ''ultraplan.discussionComplete'' outcome)
      = Some (js ''ultraplan.discussionComplete'')" for outcome
    by (simp add: exampleMessage_def)
  have p: "p_status (payloadOf (exampleMessage ''ultraplan.discussionComplete'' outcome))
      = Some (js outcome)" for outcome
    by (simp add: exampleMessage_def payloadOf_def)
  from discussionComplete_stage [OF w t, of "''completed''"]
       discussionComplete_stage [OF w t, of "''failed''"] w t p
  show ?thesis by simp
qed

text \<open>
  Claim C6. For every \<^verbatim>\<open>ultraplan.discussionFileInit\<close> event that the message
  handler of the dashboard's current socket receives: if the payload's status equals
  \<^verbatim>\<open>skipped\<close> the workflow stage becomes \<^verbatim>\<open>complete\<close>; for any other status, or
  none, it becomes \<^verbatim>\<open>discussion-init\<close>.
\<close>

theorem discussionFileInit_stage:
  assumes "wsRef st = Some socket"
    and "msgType m = Some (js ''ultraplan.discussionFileInit'')"
  shows "(p_status (payloadOf m) = Some (js ''skipped'') \<longrightarrow>
            onmessage socket (Some m) st = st\<lparr> workflowStage := Complete \<rparr>
          \<and> workflowStage (onmessage socket (Some m) st) = Complete)
       \<and> (p_status (payloadOf m) \<noteq> Some (js ''skipped'') \<longrightarrow>
            onmessage socket (Some m) st = st\<lparr> workflowStage := DiscussionInit \<rparr>
          \<and> workflowStage (onmessage socket (Some m) st) = DiscussionInit)"
  using assms by (simp add: onmessage_def handleMessage_discussionFileInit)

theorem discussionFileInit_stage_witness:
  "wsRef exampleApp = Some 1
   \<and> msgType (exampleMessage ''ultraplan.discussionFileInit'' ''skipped'')
       = Some (js ''ultraplan.discussionFileInit'')
   \<and> p_status (payloadOf (exampleMessage ''ultraplan.discussionFileInit'' ''skipped''))
       = Some (js ''skipped'')
   \<and> workflowStage (onmessage 1 (Some (exampleMessage ''ultraplan.discussionFileInit'' ''skipped''))
        exampleApp) = Complete
   \<and> msgType (exampleMessage ''ultraplan.discussionFileInit'' ''created'')
       = Some (js ''ultraplan.discussionFileInit'')
   \<and> p_status (payloadOf (exampleMessage ''ultraplan.discussionFileInit'' ''created''))
       \<noteq> Some (js ''skipped'')
   \<and> workflowStage (onmessage 1 (Some (exampleMessage ''ultraplan.discussionFileInit'' ''created''))
        exampleApp) = DiscussionInit"
proof -
  have w: "wsRef exampleApp = Some 1"
    by (simp add: exampleApp_def initialApp_def)
  have t: "msgType (exampleMessage ''ultraplan.discussionFileInit'' outcome)
      = Some (js ''ultraplan.discussionFileInit'')" for outcome
    by (simp add: exampleMessage_def)
  have p: "p_status (payloadOf (exampleMessage ''ultraplan.discussionFileInit'' outcome))
      = Some (js outcome)" for outcome
    by (simp add: exampleMessage_def payloadOf_def)
  have ne: "js ''created'' \<noteq> js ''skipped''" by (simp add: js_def)
  from discussionFileInit_stage [OF w t, of "''skipped''"]
       discussionFileInit_stage [OF w t, of "''created''"] w t p ne
  show ?thesis by simp
qed


lemma trim_empty_iff: "trim s = [] \<longleftrightarrow> list_all isWhiteSpace s"
proof -
  have "trim s = [] \<longleftrightarrow> (\<forall>c \<in> set (dropWhile isWhiteSpace s). isWhiteSpace c)"
    by (simp add: trim_def dropWhile_eq_Nil_conv)
  also have "\<dots> \<longleftrightarrow> dropWhile isWhiteSpace s = []"
  proof
    assume all: "\<forall>c \<in> set (dropWhile isWhiteSpace s). isWhiteSpace c"
    show "dropWhile isWhiteSpace s = []"
    proof (rule ccontr)
      assume ne: "dropWhile isWhiteSpace s \<noteq> []"
      then have "\<not> isWhiteSpace (hd (dropWhile isWhiteSpace s))"
        by (rule hd_dropWhile)
      moreover from ne have "hd (dropWhile isWhiteSpace s) \<in> set (dropWhile isWhiteSpace s)"
        by (rule hd_in_set)
      ultimately show False using all by blast
    qed
  next
    assume e: "dropWhile isWhiteSpace s = []"
    show "\<forall>c \<in> set (dropWhile isWhiteSpace s). isWhiteSpace c"
      unfolding e by simp
  qed
  also have "\<dots> \<longleftrightarrow> list_all isWhiteSpace s"
    by (simp add: dropWhile_eq_Nil_conv list_all_iff)
  finally show ?thesis .
qed

lemma answerMissing_iff:
  "answerMissing ans i \<longleftrightarrow> (\<forall>a. ans i = Some a \<longrightarrow> list_all isWhiteSpace a)"
  by (simp add: answerMissing_def trim_empty_iff split: option.splits)

lemma submitDisabled_iff:
  "submitDisabled st \<longleftrightarrow>
     (\<exists>i < length (userInputQuestions st). \<forall>a. userInputAnswers st i = Some a \<longrightarrow> list_all isWhiteSpace a)"
  by (auto simp: submitDisabled_def list_ex_iff answerMissing_iff)

lemma typeAnswers_answers:
  "userInputAnswers (typeAnswers edits st) = userInputAnswers st ++ map_of (rev edits)"
proof (induction edits arbitrary: st)
  case Nil
  show ?case by (simp add: typeAnswers_def)
next
  case (Cons e edits)
  obtain i v where e: "e = (i, v)" by (cases e)
  have step: "typeAnswers (e # edits) st = typeAnswers edits (onChange i v st)"
    by (simp add: typeAnswers_def e)
  have upd: "userInputAnswers (onChange i v st) = (userInputAnswers st)(i \<mapsto> v)"
    by (simp add: onChange_def)
  have "userInputAnswers (typeAnswers (e # edits) st)
      = userInputAnswers (onChange i v st) ++ map_of (rev edits)"
    unfolding step by (rule Cons.IH)
  also have "\<dots> = (userInputAnswers st)(i \<mapsto> v) ++ map_of (rev edits)"
    by (simp only: upd)
  also have "\<dots> = userInputAnswers st ++ map_of (rev (e # edits))"
    by (simp add: e map_add_def fun_eq_iff split: option.splits)
  finally show ?case .
qed

lemma typeAnswers_others:
  "userInputQuestions (typeAnswers edits st) = userInputQuestions st"
  "userInputPending (typeAnswers edits st) = userInputPending st"
  "wsRef (typeAnswers edits st) = wsRef st"
  "socketOpen (typeAnswers edits st) = socketOpen st"
  by (induction edits arbitrary: st; simp add: typeAnswers_def onChange_def split: prod.splits)+

lemma clickSubmit_Some:
  assumes "clickSubmit st = Some out"
  shows "subType out = js ''ultraplan.userInputSubmit''"
    and "answers out = userInputAnswers st"
    and "\<not> submitDisabled st"
  using assms
  by (auto simp: clickSubmit_def submitUserInput_def send_def split: if_splits)

text \<open>
  Claim C7. The submit button is disabled exactly when some displayed question has no
  answer, an empty answer or an answer of white space only. A submission carries the
  type \<^verbatim>\<open>ultraplan.userInputSubmit\<close> and the mapping \<^verbatim>\<open>userInputAnswers\<close>, keyed by
  the 0-based index of the question, and that mapping holds an answer that is not
  blank for the index of every displayed question. After a
  \<^verbatim>\<open>ultraplan.userInputNeeded\<close> event and any sequence of edits, the submitted mapping
  gives, for each index, the text last typed for that question.
\<close>

theorem submission_answers_every_question:
  "(submitDisabled st \<longleftrightarrow>
      (\<exists>i < length (userInputQuestions st).
          \<forall>a. userInputAnswers st i = Some a \<longrightarrow> list_all isWhiteSpace a))
   \<and> (\<forall>out. clickSubmit st = Some out \<longrightarrow>
          subType out = js ''ultraplan.userInputSubmit''
        \<and> answers out = userInputAnswers st
        \<and> (\<forall>i < length (userInputQuestions st).
              \<exists>a. answers out i = Some a \<and> \<not> list_all isWhiteSpace a))
   \<and> (\<forall>socket needed edits out.
          wsRef st = Some socket
        \<and> msgType needed = Some (js ''ultraplan.userInputNeeded'')
        \<and> clickSubmit (typeAnswers edits (onmessage socket (Some needed) st)) = Some out
        \<longrightarrow> answers out = map_of (rev edits)
          \<and> (\<forall>i < length (userInputQuestions (onmessage socket (Some needed) st)).
                \<exists>a. map_of (rev edits) i = Some a \<and> \<not> list_all isWhiteSpace a))"
proof (intro conjI allI impI)
  show "submitDisabled st \<longleftrightarrow>
      (\<exists>i < length (userInputQuestions st).
          \<forall>a. userInputAnswers st i = Some a \<longrightarrow> list_all isWhiteSpace a)"
    by (rule submitDisabled_iff)
next
  fix out assume "clickSubmit st = Some out"
  then show "subType out = js ''ultraplan.userInputSubmit''" by (rule clickSubmit_Some)
next
  fix out assume "clickSubmit st = Some out"
  then show "answers out = userInputAnswers st" by (rule clickSubmit_Some)
next
  fix out i
  assume c: "clickSubmit st = Some out" and i: "i < length (userInputQuestions st)"
  from c have "\<not> submitDisabled st" and "answers out = userInputAnswers st"
    by (rule clickSubmit_Some)+
  with i show "\<exists>a. answers out i = Some a \<and> \<not> list_all isWhiteSpace a"
    by (auto simp: submitDisabled_iff)
next
  fix socket needed edits out
  assume h: "wsRef st = Some socket
        \<and> msgType needed = Some (js ''ultraplan.userInputNeeded'')
        \<and> clickSubmit (typeAnswers edits (onmessage socket (Some needed) st)) = Some out"
  let ?st1 = "onmessage socket (Some needed) st"
  from h have empty: "userInputAnswers ?st1 = Map.empty"
    by (simp add: onmessage_def handleMessage_userInputNeeded)
  from h have c: "clickSubmit (typeAnswers edits ?st1) = Some out" by simp
  then have a: "answers out = userInputAnswers (typeAnswers edits ?st1)"
    and d: "\<not> submitDisabled (typeAnswers edits ?st1)"
    by (rule clickSubmit_Some)+
  from a empty show eq: "answers out = map_of (rev edits)"
    by (simp add: typeAnswers_answers)
  fix i assume "i < length (userInputQuestions ?st1)"
  with d a eq show "\<exists>a. map_of (rev edits) i = Some a \<and> \<not> list_all isWhiteSpace a"
    by (auto simp: submitDisabled_iff typeAnswers_others)
qed


lemma example_flow:
  "clickSubmit (typeAnswers exampleEdits (onmessage 1 (Some exampleNeeded) exampleApp))
     = Some \<lparr> subType = js ''ultraplan.userInputSubmit'',
              answers = [0 \<mapsto> js ''Postgres'', 1 \<mapsto> js ''May''] \<rparr>"
  by (simp add: exampleEdits_def exampleNeeded_def exampleApp_def initialApp_def onmessage_def
        handleMessage_userInputNeeded payloadOf_def emptyPayload_def typeAnswers_def onChange_def
        clickSubmit_def submitDisabled_def answerMissing_def submitUserInput_def send_def
        trim_def isWhiteSpace_def js_def upt_rec)

lemma example_blank:
  "submitDisabled (typeAnswers [(0, js ''Postgres''), (1, js '' '')]
     (onmessage 1 (Some exampleNeeded) exampleApp))"
  by (simp add: exampleNeeded_def exampleApp_def initialApp_def onmessage_def
        handleMessage_userInputNeeded payloadOf_def emptyPayload_def typeAnswers_def onChange_def
        submitDisabled_def answerMissing_def trim_def isWhiteSpace_def js_def upt_rec)

theorem submission_answers_every_question_witness:
  "wsRef exampleApp = Some 1
   \<and> msgType exampleNeeded = Some (js ''ultraplan.userInputNeeded'')
   \<and> submitDisabled (typeAnswers [(0, js ''Postgres''), (1, js '' '')]
        (onmessage 1 (Some exampleNeeded) exampleApp))
   \<and> clickSubmit (typeAnswers exampleEdits (onmessage 1 (Some exampleNeeded) exampleApp))
       = Some \<lparr> subType = js ''ultraplan.userInputSubmit'',
                answers = [0 \<mapsto> js ''Postgres'', 1 \<mapsto> js ''May''] \<rparr>
   \<and> userInputAnswers (typeAnswers exampleEdits (onmessage 1 (Some exampleNeeded) exampleApp))
       = [0 \<mapsto> js ''Postgres'', 1 \<mapsto> js ''May'']
   \<and> map_of (rev exampleEdits) = [0 \<mapsto> js ''Postgres'', 1 \<mapsto> js ''May'']
   \<and> \<not> list_all isWhiteSpace (js ''Postgres'') \<and> \<not> list_all isWhiteSpace (js ''May'')"
proof -
  let ?st = "typeAnswers exampleEdits (onmessage 1 (Some exampleNeeded) exampleApp)"
  let ?out = "\<lparr> subType = js ''ultraplan.userInputSubmit'',
                 answers = [0 \<mapsto> js ''Postgres'', 1 \<mapsto> js ''May''] \<rparr>"
  have w: "wsRef exampleApp = Some 1"
    by (simp add: exampleApp_def initialApp_def)
  have t: "msgType exampleNeeded = Some (js ''ultraplan.userInputNeeded'')"
    by (simp add: exampleNeeded_def)
  have ws: "\<not> list_all isWhiteSpace (js ''Postgres'')" "\<not> list_all isWhiteSpace (js ''May'')"
    by (simp_all add: js_def isWhiteSpace_def)
  from submission_answers_every_question [of exampleApp] w t example_flow
  have "answers ?out = map_of (rev exampleEdits)"
    by blast
  then have typed: "map_of (rev exampleEdits) = [0 \<mapsto> js ''Postgres'', 1 \<mapsto> js ''May'']"
    by simp
  from submission_answers_every_question [of ?st] example_flow
  have "answers ?out = userInputAnswers ?st"
    by blast
  then have sent: "userInputAnswers ?st = [0 \<mapsto> js ''Postgres'', 1 \<mapsto> js ''May'']"
    by simp
  from w t ws example_flow example_blank typed sent show ?thesis by simp
qed

section \<open>The analysers: properties\<close>

text \<open>
  Claim C3. When the runner invocation of a continuation analysis or of a gap analysis
  fails, or its output does not parse as a single JSON object, the result is the safe
  default: continuation analysis returns \<^verbatim>\<open>shouldContinue = false\<close> and gap analysis
  returns \<^verbatim>\<open>needsInput = false\<close>. Such a failure is not a workflow error: unless every
  speaker failed, a failed continuation analysis stops the loop, and after a failed gap
  analysis the loop stops or goes on to the next round, without a pause; it goes on to
  the next round when the cap is not reached and continuation analysis says to continue.
\<close>

theorem analysis_failure_safe:
  "(runUnusable parseC runC \<longrightarrow>
        analyzeForContinuation parseC runC = \<lparr> shouldContinue = False, reason = analysisFailed \<rparr>
      \<and> shouldContinue (analyzeForContinuation parseC runC) = False)
   \<and> (runUnusable parseG runG \<longrightarrow>
        analyzeForUserInput parseG runG = \<lparr> needsInput = False, questions = [] \<rparr>
      \<and> needsInput (analyzeForUserInput parseG runG) = False)
   \<and> (runUnusable parseC runC \<and> \<not> allFailed \<longrightarrow>
        afterSpeakers parseC parseG allFailed roundNum maxRounds runC runG = StopLoop)
   \<and> (runUnusable parseG runG \<and> \<not> allFailed \<longrightarrow>
        afterSpeakers parseC parseG allFailed roundNum maxRounds runC runG \<in> {StopLoop, NextRound})
   \<and> (runUnusable parseG runG \<and> \<not> allFailed \<and> roundNum \<noteq> maxRounds
        \<and> shouldContinue (analyzeForContinuation parseC runC) \<longrightarrow>
        afterSpeakers parseC parseG allFailed roundNum maxRounds runC runG = NextRound)"
  by (auto simp: runUnusable_def analyzeForContinuation_def analyzeForUserInput_def
        afterSpeakers_def Let_def split: analysisRun.splits option.splits)

theorem analysis_failure_safe_witness:
  "runUnusable exampleParseC (RunFailed (js ''hard timeout''))
   \<and> shouldContinue (analyzeForContinuation exampleParseC (RunFailed (js ''hard timeout''))) = False
   \<and> runUnusable exampleParseG (RunText (js ''not json''))
   \<and> needsInput (analyzeForUserInput exampleParseG (RunText (js ''not json''))) = False
   \<and> shouldContinue (analyzeForContinuation exampleParseC exampleContinue)
   \<and> afterSpeakers exampleParseC exampleParseG False 1 5 exampleContinue (RunText (js ''not json''))
       = NextRound
   \<and> afterSpeakers exampleParseC exampleParseG False 1 5 (RunFailed (js ''hard timeout''))
         (RunText (js ''not json'')) = StopLoop"
proof -
  have c: "runUnusable exampleParseC (RunFailed (js ''hard timeout''))"
    by (simp add: runUnusable_def)
  have g: "runUnusable exampleParseG (RunText (js ''not json''))"
    by (simp add: runUnusable_def exampleParseG_def js_def)
  have k: "shouldContinue (analyzeForContinuation exampleParseC exampleContinue)"
    by (simp add: analyzeForContinuation_def exampleParseC_def exampleContinue_def)
  from analysis_failure_safe [of exampleParseC "RunFailed (js ''hard timeout'')" exampleParseG
         "RunText (js ''not json'')" False 1 5]
       analysis_failure_safe [of exampleParseC exampleContinue exampleParseG
         "RunText (js ''not json'')" False 1 5]
       c g k
  show ?thesis by simp
qed

end
